theory Spec2Isabelle
  imports Main "HOL-Library.AList"
begin

section \<open>Python values, files and exceptions\<close>

text \<open>
  The module \<^verbatim>\<open>sublime/cli/decorator.py\<close> holds the decorators shared by the
  subcommands of the command-line client. Results of the API and bodies of API failures are
  parsed JSON, modelled by \<open>pyval\<close> (floating-point numbers are left out: no decorator
  inspects one). The values that click stores in \<^verbatim>\<open>context.params\<close> are \<open>argval\<close>.
  A file object is \<open>File name\<close>, or \<open>Std name\<close> for a standard stream that click
  returns for the path \<^verbatim>\<open>-\<close>.
\<close>

datatype pyval =
    PNone
  | PBool bool
  | PInt int
  | PStr string
  | PList "pyval list"
  | PDict "(string \<times> pyval) list"

datatype pyfile = File string | Std string

fun file_name :: "pyfile \<Rightarrow> string" where
  "file_name (File n) = n"
| "file_name (Std n) = n"

datatype argval = ANone | ABool bool | AStr string | AFile pyfile

text \<open>Python truthiness, as tested by \<^verbatim>\<open>not x\<close> and \<^verbatim>\<open>if x\<close>.\<close>

fun truthy :: "argval \<Rightarrow> bool" where
  "truthy ANone = False"
| "truthy (ABool b) = b"
| "truthy (AStr s) = (s \<noteq> [])"
| "truthy (AFile f) = True"

text \<open>
  An exception raised by the API client is \<open>ApiException classes args text\<close>: of the three
  classes that \<^verbatim>\<open>handle_exceptions\<close> names, those it is an instance of (the class
  hierarchy of \<^verbatim>\<open>sublime.exceptions\<close> is not fixed here), its \<^verbatim>\<open>args\<close> tuple and the
  result of \<^verbatim>\<open>str\<close> on it. \<open>ClickException message\<close> is click's usage error, \<open>Exit code\<close>
  is what \<^verbatim>\<open>context.exit(code)\<close> raises. The others are raised by Python itself.
\<close>

datatype cls = RateLimitError | RequestFailure | RequestException

datatype exc =
    ApiException "cls list" "pyval list" string
  | ClickException string
  | Exit int
  | KeyError
  | IndexError
  | TypeError
  | AttributeError
  | FileNotFoundError
  | OSError

fun isinstance :: "exc \<Rightarrow> cls \<Rightarrow> bool" where
  "isinstance (ApiException classes args text) c = (c \<in> set classes)"
| "isinstance _ c = False"

fun exc_args :: "exc \<Rightarrow> pyval list" where
  "exc_args (ApiException classes args text) = args"
| "exc_args _ = []"

fun exc_str :: "exc \<Rightarrow> string" where
  "exc_str (ApiException classes args text) = text"
| "exc_str (ClickException message) = message"
| "exc_str _ = []"

section \<open>Effects\<close>

text \<open>
  The decorators write to streams and files, log, build the API client and call the
  subcommand. A run yields its outcome (\<open>Inl\<close> an exception that propagates, \<open>Inr\<close> the value
  returned) together with the trace of its effects, in order. \<open>Write sink text\<close> is
  \<^verbatim>\<open>text\<close> written to a sink; \<open>Render keys result verbose\<close> is a call of the formatter
  found under \<open>keys\<close> in \<^verbatim>\<open>FORMATTERS\<close>; \<open>Call client kwargs\<close> is the call of the decorated
  subcommand function, which performs the API operation.
\<close>

datatype sink = Stdout | Stderr | ToFile string

datatype client = Sublime argval

datatype event =
    Construct argval
  | Call client "(string \<times> argval) list"
  | Probe client string
  | LogError string
  | OpenFile string string
  | Render "string list" pyval argval
  | Write sink string
  | Traceback exc

type_synonym 'a io = "(exc + 'a) \<times> event list"

definition ok :: "'a \<Rightarrow> 'a io" where
  "ok x = (Inr x, [])"

definition raise :: "exc \<Rightarrow> 'a io" where
  "raise e = (Inl e, [])"

definition lift :: "exc + 'a \<Rightarrow> 'a io" where
  "lift r = (r, [])"

definition emit :: "event \<Rightarrow> unit io" where
  "emit ev = (Inr (), [ev])"

text \<open>Sequencing: an exception in the first part skips the rest.\<close>

definition bind :: "'a io \<Rightarrow> ('a \<Rightarrow> 'b io) \<Rightarrow> 'b io" where
  "bind m f =
     (case m of
        (Inl e, tr) \<Rightarrow> (Inl e, tr)
      | (Inr x, tr) \<Rightarrow> (case f x of (r, tr') \<Rightarrow> (r, tr @ tr')))"

text \<open>\<^verbatim>\<open>try: m except Exception as e: h(e)\<close>, where \<open>h\<close> re-raises what it does not handle.\<close>

definition catch :: "'a io \<Rightarrow> (exc \<Rightarrow> 'a io) \<Rightarrow> 'a io" where
  "catch m h =
     (case m of
        (Inl e, tr) \<Rightarrow> (case h e of (r, tr') \<Rightarrow> (r, tr @ tr'))
      | (Inr x, tr) \<Rightarrow> (Inr x, tr))"

section \<open>Strings, dictionaries and paths of the Python library\<close>

definition nl :: string where
  "nl = [CHR 0x0A]"

text \<open>\<^verbatim>\<open>s.strip(chars)\<close> removes the characters of \<open>chars\<close> at both ends of \<open>s\<close>.\<close>

definition strip :: "string \<Rightarrow> string \<Rightarrow> string" where
  "strip chars s =
     rev (dropWhile (\<lambda>c. c \<in> set chars) (rev (dropWhile (\<lambda>c. c \<in> set chars) s)))"

text \<open>\<^verbatim>\<open>s.rstrip(chars)\<close> removes them at the end only.\<close>

definition rstrip :: "string \<Rightarrow> string \<Rightarrow> string" where
  "rstrip chars s = rev (dropWhile (\<lambda>c. c \<in> set chars) (rev s))"

text \<open>
  \<^verbatim>\<open>repr\<close> of a string of printable ASCII characters with no single quote and no backslash
  is the string between single quotes; for any other string it is \<open>other s\<close>.
  \<^verbatim>\<open>"{}".format(v)\<close> is the string itself when \<open>v\<close> is a string, and \<open>other v\<close>
  otherwise.
\<close>

definition plain :: "char \<Rightarrow> bool" where
  "plain c = (32 \<le> (of_char c :: nat) \<and> (of_char c :: nat) < 127
              \<and> c \<noteq> CHR 0x27 \<and> c \<noteq> CHR 0x5C)"

definition py_repr :: "(string \<Rightarrow> string) \<Rightarrow> string \<Rightarrow> string" where
  "py_repr other s =
     (if list_all plain s then [CHR 0x27] @ s @ [CHR 0x27] else other s)"

fun py_format :: "(pyval \<Rightarrow> string) \<Rightarrow> pyval \<Rightarrow> string" where
  "py_format other (PStr s) = s"
| "py_format other v = other v"

text \<open>\<^verbatim>\<open>d[k]\<close>, \<^verbatim>\<open>d.get(k)\<close> and \<^verbatim>\<open>d.get(k, default)\<close> on the dictionaries of click and of
  the configuration; \<^verbatim>\<open>v[k]\<close> and \<^verbatim>\<open>t[i]\<close> on values of the API.\<close>

definition subscript :: "(string \<times> 'v) list \<Rightarrow> string \<Rightarrow> exc + 'v" where
  "subscript d k = (case map_of d k of None \<Rightarrow> Inl KeyError | Some v \<Rightarrow> Inr v)"

definition dict_get :: "(string \<times> argval) list \<Rightarrow> string \<Rightarrow> argval" where
  "dict_get d k = (case map_of d k of None \<Rightarrow> ANone | Some v \<Rightarrow> v)"

definition dict_get_default :: "(string \<times> argval) list \<Rightarrow> string \<Rightarrow> argval \<Rightarrow> argval" where
  "dict_get_default d k dflt = (case map_of d k of None \<Rightarrow> dflt | Some v \<Rightarrow> v)"

fun getitem :: "pyval \<Rightarrow> string \<Rightarrow> exc + pyval" where
  "getitem (PDict kvs) k = subscript kvs k"
| "getitem v k = Inl TypeError"

definition index :: "'a list \<Rightarrow> nat \<Rightarrow> exc + 'a" where
  "index xs i = (if i < length xs then Inr (xs ! i) else Inl IndexError)"

text \<open>The \<^verbatim>\<open>name\<close> attribute of an option value: \<^verbatim>\<open>None\<close> has none.\<close>

fun name_attr :: "argval \<Rightarrow> exc + string" where
  "name_attr (AFile f) = Inr (file_name f)"
| "name_attr v = Inl AttributeError"

text \<open>\<^verbatim>\<open>s.rfind(c)\<close>: the last index of \<open>c\<close> in \<open>s\<close>, or \<open>-1\<close>.\<close>

fun rfind :: "string \<Rightarrow> char \<Rightarrow> int" where
  "rfind [] c = -1"
| "rfind (x # xs) c =
     (let r = rfind xs c in if 0 \<le> r then r + 1 else if x = c then 0 else -1)"

text \<open>
  \<^verbatim>\<open>os.path.splitext\<close> and \<^verbatim>\<open>os.path.basename\<close> of \<^verbatim>\<open>posixpath\<close>. The loop of
  \<^verbatim>\<open>genericpath._splitext\<close> looks for a character other than the dot between the last
  separator and the last dot: leading dots of a file name start no extension.
\<close>

function non_dot_before :: "string \<Rightarrow> int \<Rightarrow> int \<Rightarrow> bool" where
  "non_dot_before p filenameIndex dotIndex =
     (if filenameIndex < dotIndex then
        (if take 1 (drop (nat filenameIndex) p) \<noteq> ''.'' then True
         else non_dot_before p (filenameIndex + 1) dotIndex)
      else False)"
  by pat_completeness auto
termination
  by (relation "measure (\<lambda>(p, i, d). nat (d - i))") auto

declare non_dot_before.simps [simp del]

definition splitext :: "string \<Rightarrow> string \<times> string" where
  "splitext p =
     (let sepIndex = rfind p CHR ''/'';
          dotIndex = rfind p CHR ''.''
      in if dotIndex > sepIndex \<and> non_dot_before p (sepIndex + 1) dotIndex
         then (take (nat dotIndex) p, drop (nat dotIndex) p)
         else (p, []))"

definition basename :: "string \<Rightarrow> string" where
  "basename p = (let i = rfind p CHR ''/'' + 1 in drop (nat i) p)"

section \<open>What the decorators are given\<close>

text \<open>
  An entry of \<^verbatim>\<open>FORMATTERS\<close> is a function of the result and the verbosity flag, or a
  dictionary of such functions by subcommand name.
\<close>

datatype formatter_entry =
    Func "pyval \<Rightarrow> argval \<Rightarrow> string"
  | Table "(string \<times> (pyval \<Rightarrow> argval \<Rightarrow> string)) list"

text \<open>
  The parts of the program and of its surroundings that lie outside the module:
  the table \<^verbatim>\<open>sublime.cli.formatter.FORMATTERS\<close>, the dictionary returned by
  \<^verbatim>\<open>sublime.util.load_config()\<close>, the error (if any) of opening a path in a mode, the method
  \<^verbatim>\<open>Sublime.not_implemented\<close>, and Python's \<^verbatim>\<open>str\<close> and \<^verbatim>\<open>repr\<close> where they are not
  spelled out above.
\<close>

record env =
  FORMATTERS :: "(string \<times> formatter_entry) list"
  load_config :: "(string \<times> argval) list"
  open_error :: "string \<Rightarrow> string \<Rightarrow> exc option"
  not_implemented :: "client \<Rightarrow> string \<Rightarrow> exc + pyval"
  str_other :: "pyval \<Rightarrow> string"
  repr_other :: "string \<Rightarrow> string"

text \<open>click's current context: the command's name, the program's name
  (\<^verbatim>\<open>context.parent.info_name\<close>) and the parsed parameters.\<close>

record click_context =
  command_name :: string
  prog_name :: string
  params :: "(string \<times> argval) list"

text \<open>
  \<^verbatim>\<open>click.echo(message, file)\<close> writes the message and one newline to the file; with
  no file (\<^verbatim>\<open>None\<close>), to standard output. \<open>target\<close> is the sink that the argument
  stands for; a value that is neither a file nor \<^verbatim>\<open>None\<close> has no \<^verbatim>\<open>write\<close>.
\<close>

fun target :: "argval \<Rightarrow> exc + sink" where
  "target ANone = Inr Stdout"
| "target (AFile (File n)) = Inr (ToFile n)"
| "target (AFile (Std n)) = Inr Stdout"
| "target v = Inl AttributeError"

definition click_echo :: "string \<Rightarrow> argval \<Rightarrow> unit io" where
  "click_echo message file = bind (lift (target file)) (\<lambda>s. emit (Write s (message @ nl)))"

text \<open>\<^verbatim>\<open>click.open_file(name, mode)\<close>: the path \<^verbatim>\<open>-\<close> is the standard stream.\<close>

definition click_open_file :: "env \<Rightarrow> string \<Rightarrow> string \<Rightarrow> pyfile io" where
  "click_open_file env name mode =
     (if name = ''-'' then ok (Std (if mode = ''w'' then ''<stdout>'' else ''<stdin>''))
      else case open_error env name mode of
             Some e \<Rightarrow> raise e
           | None \<Rightarrow> bind (emit (OpenFile name mode)) (\<lambda>_. ok (File name)))"

section \<open>The decorators\<close>

subsection \<open>\<^verbatim>\<open>echo_result\<close>\<close>

text \<open>The formatter for an output format and a command, with the keys it was found under.\<close>

definition resolve_formatter ::
  "env \<Rightarrow> argval \<Rightarrow> string \<Rightarrow> exc + (string list \<times> (pyval \<Rightarrow> argval \<Rightarrow> string))" where
  "resolve_formatter env output_format name =
     (case output_format of
        AStr f \<Rightarrow>
          (case map_of (FORMATTERS env) f of
             None \<Rightarrow> Inl KeyError
           | Some (Func fn) \<Rightarrow> Inr ([f], fn)
           | Some (Table t) \<Rightarrow>
               (case map_of t name of
                  None \<Rightarrow> Inl KeyError
                | Some fn \<Rightarrow> Inr ([f, name], fn)))
      | _ \<Rightarrow> Inl KeyError)"

text \<open>\<^verbatim>\<open>FORMATTERS["txt"]["enrich_details"]\<close>.\<close>

definition details_formatter :: "env \<Rightarrow> exc + (string list \<times> (pyval \<Rightarrow> argval \<Rightarrow> string))" where
  "details_formatter env =
     (case map_of (FORMATTERS env) ''txt'' of
        None \<Rightarrow> Inl KeyError
      | Some (Func fn) \<Rightarrow> Inl TypeError
      | Some (Table t) \<Rightarrow>
          (case map_of t ''enrich_details'' of
             None \<Rightarrow> Inl KeyError
           | Some fn \<Rightarrow> Inr ([''txt'', ''enrich_details''], fn)))"

definition render ::
  "string list \<times> (pyval \<Rightarrow> argval \<Rightarrow> string) \<Rightarrow> pyval \<Rightarrow> argval \<Rightarrow> string io" where
  "render formatter result verbose =
     bind (emit (Render (fst formatter) result verbose))
       (\<lambda>_. ok (snd formatter result verbose))"

text \<open>Lines 46 to 56: with no output file, one is named after the input file and opened.\<close>

definition output_file_name :: "string \<Rightarrow> argval \<Rightarrow> string" where
  "output_file_name input_file_relative_name output_format =
     (let input_file_relative_no_ext = fst (splitext input_file_relative_name);
          input_file_name_no_ext = basename input_file_relative_no_ext
      in if output_format = AStr ''json'' then input_file_name_no_ext @ ''.mdm''
         else if output_format = AStr ''txt'' then input_file_name_no_ext @ ''.txt''
         else input_file_name_no_ext)"

definition default_output_file ::
  "env \<Rightarrow> (string \<times> argval) list \<Rightarrow> argval \<Rightarrow> (string \<times> argval) list io" where
  "default_output_file env ps output_format =
     (if \<not> truthy (dict_get ps ''output_file'') then
        bind (lift (name_attr (dict_get ps ''input_file''))) (\<lambda>input_file_relative_name.
        bind (click_open_file env (output_file_name input_file_relative_name output_format) ''w'')
          (\<lambda>f. ok (AList.update ''output_file'' (AFile f) ps)))
      else ok ps)"

text \<open>Lines 43 to 66: the block run for the command named \<^verbatim>\<open>enrich\<close>.\<close>

definition enrich_block ::
  "env \<Rightarrow> (string \<times> argval) list \<Rightarrow> argval \<Rightarrow> pyval \<Rightarrow> ((string \<times> argval) list \<times> pyval) io" where
  "enrich_block env ps output_format result =
     bind (default_output_file env ps output_format) (\<lambda>ps.
     bind (lift (details_formatter env)) (\<lambda>details.
     bind (render details result (dict_get_default ps ''verbose'' (ABool False))) (\<lambda>text.
     bind (click_echo (strip nl text) (AFile (Std ''<stdout>''))) (\<lambda>_.
     bind (lift (getitem result ''message_data_model'')) (\<lambda>result.
     ok (ps, result))))))"

text \<open>Lines 68 to 75: the result is rendered, stripped and written to the output file (or to
  standard output), and a file that was written is named on standard output.\<close>

definition echo_output ::
  "string list \<times> (pyval \<Rightarrow> argval \<Rightarrow> string) \<Rightarrow> (string \<times> argval) list \<Rightarrow> pyval \<Rightarrow> unit io"
  where
  "echo_output formatter ps result =
     bind (render formatter result (dict_get_default ps ''verbose'' (ABool False))) (\<lambda>text.
     bind (click_echo (strip nl text)
             (dict_get_default ps ''output_file'' (AFile (Std ''<stdout>'')))) (\<lambda>_.
     (let file_name = dict_get ps ''output_file''
      in if truthy file_name then
           bind (lift (name_attr file_name)) (\<lambda>n.
             click_echo (''Output saved to '' @ n) ANone)
         else ok ())))"

definition echo_result ::
  "env \<Rightarrow> click_context \<Rightarrow> (client \<Rightarrow> (string \<times> argval) list \<Rightarrow> pyval io)
     \<Rightarrow> client \<Rightarrow> (string \<times> argval) list \<Rightarrow> unit io" where
  "echo_result env ctx function api_client kwargs =
     bind (function api_client kwargs) (\<lambda>result.
     bind (lift (subscript (params ctx) ''output_format'')) (\<lambda>output_format.
     bind (lift (resolve_formatter env output_format (command_name ctx))) (\<lambda>formatter.
     bind (if command_name ctx = ''enrich''
           then enrich_block env (params ctx) output_format result
           else ok (params ctx, result)) (\<lambda>(ps, result).
     echo_output formatter ps result))))"

subsection \<open>\<^verbatim>\<open>handle_exceptions\<close>\<close>

definition handle_exceptions ::
  "env \<Rightarrow> (client \<Rightarrow> (string \<times> argval) list \<Rightarrow> 'a io)
     \<Rightarrow> client \<Rightarrow> (string \<times> argval) list \<Rightarrow> 'a io" where
  "handle_exceptions env function api_client kwargs =
     catch (function api_client kwargs) (\<lambda>exception.
       if isinstance exception RateLimitError then
         bind (lift (index (exc_args exception) 0)) (\<lambda>body.
         bind (lift (getitem body ''detail'')) (\<lambda>detail.
         bind (emit (LogError (''API error: '' @ py_format (str_other env) detail))) (\<lambda>_.
         raise (Exit (-1)))))
       else if isinstance exception RequestFailure then
         bind (lift (index (exc_args exception) 1)) (\<lambda>body.
         bind (lift (getitem body ''detail'')) (\<lambda>detail.
         bind (emit (LogError (''API error: '' @ py_format (str_other env) detail))) (\<lambda>_.
         raise (Exit (-1)))))
       else if isinstance exception RequestException then
         bind (emit (LogError (''API error: '' @ exc_str exception))) (\<lambda>_.
         raise (Exit (-1)))
       else raise exception)"

subsection \<open>\<^verbatim>\<open>pass_api_client\<close>\<close>

definition api_key_help :: "env \<Rightarrow> string \<Rightarrow> string" where
  "api_key_help env prog =
     nl @ ''Error: API key not found.'' @ nl @ nl
     @ ''To fix this problem, please use any of the following methods ''
     @ ''(in order of precedence):'' @ nl
     @ ''- Pass it using the -k/--api-key option.'' @ nl
     @ ''- Set it in the SUBLIME_API_KEY environment variable.'' @ nl
     @ ''- Run '' @ py_repr (repr_other env) (prog @ '' setup'')
     @ '' to save it to the configuration file.'' @ nl"

definition pass_api_client ::
  "env \<Rightarrow> click_context \<Rightarrow> (client \<Rightarrow> (string \<times> argval) list \<Rightarrow> 'a io)
     \<Rightarrow> (string \<times> argval) list \<Rightarrow> 'a io" where
  "pass_api_client env ctx function kwargs =
     (let api_key = dict_get (params ctx) ''api_key'';
          config = load_config env
      in bind (if api_key = ANone then
                 bind (lift (subscript config ''api_key'')) (\<lambda>k.
                 bind (if \<not> truthy k then
                         bind (click_echo (api_key_help env (prog_name ctx)) ANone) (\<lambda>_.
                         raise (Exit (-1)))
                       else ok ()) (\<lambda>_.
                 lift (subscript config ''api_key'')))
               else ok api_key) (\<lambda>api_key.
         bind (emit (Construct api_key)) (\<lambda>_.
         function (Sublime api_key) kwargs)))"

subsection \<open>The commands\<close>

text \<open>
  The innermost wrapper calls the decorated subcommand function, which performs the API
  operation and returns its result or raises.
\<close>

definition call ::
  "(client \<Rightarrow> (string \<times> argval) list \<Rightarrow> exc + pyval)
     \<Rightarrow> client \<Rightarrow> (string \<times> argval) list \<Rightarrow> pyval io" where
  "call function api_client kwargs =
     bind (emit (Call api_client kwargs)) (\<lambda>_. lift (function api_client kwargs))"

text \<open>
  click fills \<^verbatim>\<open>context.params\<close> with one entry for each option that the command declares,
  \<^verbatim>\<open>None\<close> for an option that is absent and has no default. The input file is required,
  the output format is one of the click.Choice or its default.
\<close>

definition enrich_params ::
  "argval \<Rightarrow> pyfile \<Rightarrow> argval \<Rightarrow> string \<Rightarrow> (string \<times> argval) list" where
  "enrich_params api_key input_file output_file output_format =
     [(''api_key'', api_key), (''input_file'', AFile input_file),
      (''output_file'', output_file), (''output_format'', AStr output_format)]"

definition analyze_params ::
  "argval \<Rightarrow> pyfile \<Rightarrow> argval \<Rightarrow> argval \<Rightarrow> argval \<Rightarrow> string \<Rightarrow> (string \<times> argval) list" where
  "analyze_params api_key input_file detections_file detection_str output_file output_format =
     [(''api_key'', api_key), (''input_file'', AFile input_file),
      (''detections_file'', detections_file), (''detection_str'', detection_str),
      (''output_file'', output_file), (''output_format'', AStr output_format)]"

definition query_params ::
  "argval \<Rightarrow> pyfile \<Rightarrow> string \<Rightarrow> argval \<Rightarrow> string \<Rightarrow> (string \<times> argval) list" where
  "query_params api_key input_file query output_file output_format =
     [(''api_key'', api_key), (''input_file'', AFile input_file),
      (''query'', AStr query),
      (''output_file'', output_file), (''output_format'', AStr output_format)]"

definition enrich_command ::
  "env \<Rightarrow> (client \<Rightarrow> (string \<times> argval) list \<Rightarrow> exc + pyval) \<Rightarrow> click_context \<Rightarrow> unit io" where
  "enrich_command env function ctx =
     pass_api_client env ctx
       (echo_result env ctx (handle_exceptions env (call function))) (params ctx)"

definition MissingDetectionInput :: exc where
  "MissingDetectionInput =
     ClickException (''You must specify either a .pql detections file (-D) or a raw ''
                     @ ''detection (-d)'')"

definition analyze_wrapper ::
  "env \<Rightarrow> (client \<Rightarrow> (string \<times> argval) list \<Rightarrow> exc + pyval)
     \<Rightarrow> client \<Rightarrow> (string \<times> argval) list \<Rightarrow> pyval io" where
  "analyze_wrapper env function api_client kwargs =
     bind (if \<not> truthy (dict_get kwargs ''detections_file'')
              \<and> \<not> truthy (dict_get kwargs ''detection_str'')
           then catch
                  (bind (click_open_file env ''detections.pql'' ''r'') (\<lambda>detections_file.
                   ok (AList.update ''detections_file'' (AFile detections_file) kwargs)))
                  (\<lambda>e. if e = FileNotFoundError then raise MissingDetectionInput else raise e)
           else ok kwargs) (\<lambda>kwargs.
     call function api_client kwargs)"

definition analyze_command ::
  "env \<Rightarrow> (client \<Rightarrow> (string \<times> argval) list \<Rightarrow> exc + pyval) \<Rightarrow> click_context \<Rightarrow> unit io" where
  "analyze_command env function ctx =
     pass_api_client env ctx
       (echo_result env ctx (handle_exceptions env (analyze_wrapper env function))) (params ctx)"

definition query_command ::
  "env \<Rightarrow> (client \<Rightarrow> (string \<times> argval) list \<Rightarrow> exc + pyval) \<Rightarrow> click_context \<Rightarrow> unit io" where
  "query_command env function ctx =
     pass_api_client env ctx
       (echo_result env ctx (handle_exceptions env (call function))) (params ctx)"

definition SubcommandNotImplemented :: "env \<Rightarrow> string \<Rightarrow> exc" where
  "SubcommandNotImplemented env subcommand_name =
     ClickException (py_repr (repr_other env) subcommand_name
                     @ '' subcommand is not implemented yet.'')"

text \<open>\<open>function_name\<close> is \<^verbatim>\<open>function.__name__\<close>; the command declares no option. The
  wrapper has no \<^verbatim>\<open>return\<close>: after a probe that succeeds it returns \<^verbatim>\<open>None\<close>.\<close>

definition not_implemented_command :: "env \<Rightarrow> string \<Rightarrow> click_context \<Rightarrow> pyval io" where
  "not_implemented_command env function_name ctx =
     pass_api_client env ctx
       (\<lambda>api_client kwargs.
          catch
            (bind (emit (Probe api_client function_name)) (\<lambda>_.
             bind (lift (not_implemented env api_client function_name)) (\<lambda>_.
             ok PNone)))
            (\<lambda>e. if isinstance e RequestFailure
                 then raise (SubcommandNotImplemented env function_name)
                 else raise e))
       (params ctx)"

subsection \<open>click's standalone mode\<close>

text \<open>
  The command runs under \<^verbatim>\<open>BaseCommand.main\<close>: a normal return ends the process with
  status 0, \<open>Exit code\<close> with that code, a \<open>ClickException\<close> is shown on standard error as
  \<^verbatim>\<open>Error: message\<close> and ends it with status 1, and any other exception ends it with
  Python's traceback and status 1.
\<close>

definition click_main :: "'a io \<Rightarrow> int \<times> event list" where
  "click_main m =
     (case m of
        (Inr x, tr) \<Rightarrow> (0, tr)
      | (Inl (Exit code), tr) \<Rightarrow> (code, tr)
      | (Inl (ClickException message), tr) \<Rightarrow>
          (1, tr @ [Write Stderr (''Error: '' @ message @ nl)])
      | (Inl e, tr) \<Rightarrow> (1, tr @ [Traceback e]))"

section \<open>The spec's wording, and inputs for the examples\<close>

text \<open>
  Section 4.1 of the spec, in its words: if the explicit flag is present and non-empty,
  return it immediately; otherwise read the \<^verbatim>\<open>api_key\<close> field of the persisted
  configuration.
\<close>

definition resolve_api_key_spec :: "argval \<Rightarrow> argval \<Rightarrow> argval" where
  "resolve_api_key_spec explicit_flag persisted =
     (if explicit_flag \<noteq> ANone \<and> truthy explicit_flag then explicit_flag else persisted)"

text \<open>
  Read off a trace: the calls of formatters (the keys of the formatter and the value it is
  given), the verbosity flags they are given, and the texts written to a sink.
\<close>

fun rendered :: "event list \<Rightarrow> (string list \<times> pyval) list" where
  "rendered [] = []"
| "rendered (Render keys result verbose # tr) = (keys, result) # rendered tr"
| "rendered (ev # tr) = rendered tr"

fun verbose_args :: "event list \<Rightarrow> argval list" where
  "verbose_args [] = []"
| "verbose_args (Render keys result verbose # tr) = verbose # verbose_args tr"
| "verbose_args (ev # tr) = verbose_args tr"

fun written :: "sink \<Rightarrow> event list \<Rightarrow> string list" where
  "written s [] = []"
| "written s (Write s' text # tr) = (if s' = s then text # written s tr else written s tr)"
| "written s (ev # tr) = written s tr"

text \<open>The keys that API clients were built with, read off a trace.\<close>

fun constructed :: "event list \<Rightarrow> argval list" where
  "constructed [] = []"
| "constructed (Construct k # tr) = k # constructed tr"
| "constructed (ev # tr) = constructed tr"

text \<open>
  A stand-in for the formatters: a title and the keys of the result, between two newlines.
  The example environment has a key in its configuration, no file \<^verbatim>\<open>detections.pql\<close>, and
  a probe that fails at the transport level.
\<close>

definition example_formatter :: "string \<Rightarrow> pyval \<Rightarrow> argval \<Rightarrow> string" where
  "example_formatter title result verbose =
     nl @ title
     @ (case result of PDict kvs \<Rightarrow> concat (map (\<lambda>kv. '' '' @ fst kv) kvs) | _ \<Rightarrow> [])
     @ nl"

definition example_env :: env where
  "example_env =
     \<lparr>FORMATTERS =
        [(''json'', Func (example_formatter ''json'')),
         (''txt'', Table [(''enrich'', example_formatter ''enrich''),
                          (''enrich_details'', example_formatter ''details''),
                          (''analyze'', example_formatter ''analyze''),
                          (''query'', example_formatter ''query'')])],
      load_config = [(''api_key'', AStr ''cfg'')],
      open_error =
        (\<lambda>name mode. if name = ''detections.pql'' then Some FileNotFoundError else None),
      not_implemented =
        (\<lambda>api_client name. Inl (ApiException [RequestException] [] ''refused'')),
      str_other = (\<lambda>v. ''?''),
      repr_other = (\<lambda>s. ''?'')\<rparr>"

definition example_ctx :: "string \<Rightarrow> (string \<times> argval) list \<Rightarrow> click_context" where
  "example_ctx name ps = \<lparr>command_name = name, prog_name = ''sublime'', params = ps\<rparr>"

definition example_result :: pyval where
  "example_result =
     PDict [(''message_data_model'', PDict [(''subject'', PStr ''hello'')]),
            (''details'', PStr ''d'')]"

definition returns_result :: "client \<Rightarrow> (string \<times> argval) list \<Rightarrow> exc + pyval" where
  "returns_result api_client kwargs = Inr example_result"

definition returns_client :: "client \<Rightarrow> (string \<times> argval) list \<Rightarrow> client io" where
  "returns_client api_client kwargs = ok api_client"


definition probe_fails :: "exc \<Rightarrow> client \<Rightarrow> string \<Rightarrow> exc + pyval" where
  "probe_fails e api_client name = Inl e"


definition request_failed :: exc where
  "request_failed =
     ApiException [RequestFailure] [PInt 400, PDict [(''detail'', PStr ''bad input'')]] []"


text \<open>An environment in which every file can be opened.\<close>

definition opens_all :: "string \<Rightarrow> string \<Rightarrow> exc option" where
  "opens_all name mode = None"




text \<open>Two invocations for the examples: an enrich command with an explicit output file, and
  a query command that writes to standard output.\<close>

definition enrich_with_output :: click_context where
  "enrich_with_output =
     example_ctx ''enrich''
       (enrich_params (AStr ''key'') (File ''report.eml'') (AFile (File ''out.json'')) ''json'')"

definition query_to_stdout :: click_context where
  "query_to_stdout =
     example_ctx ''query'' (query_params (AStr ''key'') (File ''report.mdm'') ''q'' ANone ''txt'')"

text \<open>An enrich command with no output file, for an input file in a directory.\<close>

definition enrich_default_output :: click_context where
  "enrich_default_output =
     example_ctx ''enrich''
       (enrich_params (AStr ''key'') (File ''mail/report.eml'') ANone ''json'')"

section \<open>Sequencing\<close>

lemma bind_ok [simp]: "bind (ok x) f = f x"
  by (simp add: bind_def ok_def split: prod.splits)

lemma bind_raise [simp]: "bind (raise e) f = raise e"
  by (simp add: bind_def raise_def)

lemma bind_lift_Inr [simp]: "bind (lift (Inr x)) f = f x"
  by (simp add: bind_def lift_def split: prod.splits)

lemma bind_lift_Inl [simp]: "bind (lift (Inl e)) f = raise e"
  by (simp add: bind_def lift_def raise_def)

lemma bind_emit: "bind (emit ev) f = (fst (f ()), ev # snd (f ()))"
  by (simp add: bind_def emit_def split: prod.splits)

lemma bind_Inl [simp]: "bind (Inl e, tr) f = (Inl e, tr)"
  by (simp add: bind_def)

lemma bind_Inr: "bind (Inr x, tr) f = (fst (f x), tr @ snd (f x))"
  by (simp add: bind_def split: prod.splits)

lemma bind_eq_Inr:
  "bind m f = (Inr y, tr) \<longleftrightarrow>
     (\<exists>x tr1 tr2. m = (Inr x, tr1) \<and> f x = (Inr y, tr2) \<and> tr = tr1 @ tr2)"
  by (cases m) (auto simp: bind_def split: sum.splits prod.splits)

lemma click_echo_ok:
  "target file = Inr s \<Longrightarrow> click_echo message file = (Inr (), [Write s (message @ nl)])"
  by (simp add: click_echo_def emit_def)

lemma click_echo_None [simp]:
  "click_echo message ANone = emit (Write Stdout (message @ nl))"
  by (simp add: click_echo_def)

section \<open>Resolution of the API key\<close>

lemma pass_api_client_flag:
  "dict_get (params ctx) ''api_key'' \<noteq> ANone \<Longrightarrow>
   pass_api_client env ctx function kwargs =
     bind (emit (Construct (dict_get (params ctx) ''api_key'')))
       (\<lambda>_. function (Sublime (dict_get (params ctx) ''api_key'')) kwargs)"
  by (simp add: pass_api_client_def Let_def)

lemma pass_api_client_config:
  "dict_get (params ctx) ''api_key'' = ANone \<Longrightarrow>
   subscript (load_config env) ''api_key'' = Inr k \<Longrightarrow> truthy k \<Longrightarrow>
   pass_api_client env ctx function kwargs =
     bind (emit (Construct k)) (\<lambda>_. function (Sublime k) kwargs)"
  by (simp add: pass_api_client_def Let_def)

lemma pass_api_client_missing:
  "dict_get (params ctx) ''api_key'' = ANone \<Longrightarrow>
   subscript (load_config env) ''api_key'' = Inr k \<Longrightarrow> \<not> truthy k \<Longrightarrow>
   pass_api_client env ctx function kwargs =
     (Inl (Exit (-1)), [Write Stdout (api_key_help env (prog_name ctx) @ nl)])"
  by (simp add: pass_api_client_def Let_def bind_emit raise_def)

lemma pass_api_client_no_config:
  "dict_get (params ctx) ''api_key'' = ANone \<Longrightarrow>
   subscript (load_config env) ''api_key'' = Inl e \<Longrightarrow>
   pass_api_client env ctx function kwargs = (Inl e, [])"
  by (simp add: pass_api_client_def Let_def bind_emit raise_def)

text \<open>
  C1, as amended. A value of the \<^verbatim>\<open>-k\<close> flag is used whenever one is supplied: the code
  tests only that it is not \<^verbatim>\<open>None\<close>, so the client is built with it and the subcommand
  receives that client, also when a persisted key exists. With no flag and a non-empty
  persisted key, the client is built with the persisted key.
\<close>

theorem pass_api_client_precedence:
  "(dict_get (params ctx) ''api_key'' \<noteq> ANone \<longrightarrow>
      pass_api_client env ctx function kwargs =
        bind (emit (Construct (dict_get (params ctx) ''api_key'')))
          (\<lambda>_. function (Sublime (dict_get (params ctx) ''api_key'')) kwargs))
   \<and> (dict_get (params ctx) ''api_key'' = ANone
        \<and> subscript (load_config env) ''api_key'' = Inr k \<and> truthy k \<longrightarrow>
      pass_api_client env ctx function kwargs =
        bind (emit (Construct k)) (\<lambda>_. function (Sublime k) kwargs))"
  by (simp add: pass_api_client_flag pass_api_client_config)

theorem pass_api_client_precedence_witness:
  "pass_api_client example_env
     (example_ctx ''enrich'' (enrich_params (AStr ''flag'') (File ''report.eml'') ANone ''json''))
     returns_client [] = (Inr (Sublime (AStr ''flag'')), [Construct (AStr ''flag'')])
   \<and> pass_api_client example_env
     (example_ctx ''enrich'' (enrich_params ANone (File ''report.eml'') ANone ''json''))
     returns_client [] = (Inr (Sublime (AStr ''cfg'')), [Construct (AStr ''cfg'')])"
  using pass_api_client_precedence [of
      "example_ctx ''enrich'' (enrich_params (AStr ''flag'') (File ''report.eml'') ANone ''json'')"
      example_env returns_client "[]" "AStr ''cfg''"]
    pass_api_client_precedence [of
      "example_ctx ''enrich'' (enrich_params ANone (File ''report.eml'') ANone ''json'')"
      example_env returns_client "[]" "AStr ''cfg''"]
  by (simp add: example_ctx_def enrich_params_def example_env_def dict_get_def subscript_def
      returns_client_def bind_emit ok_def)

text \<open>
  C1 as stated fails for an empty flag value: with \<^verbatim>\<open>-k ""\<close> and the persisted key
  \<^verbatim>\<open>cfg\<close>, the client is built with the empty key, while the highest-precedence non-empty
  source is the persisted one.
\<close>

theorem api_key_precedence_counterexample:
  "constructed (snd (pass_api_client example_env
     (example_ctx ''enrich'' (enrich_params (AStr []) (File ''report.eml'') ANone ''json''))
     returns_client []))
   \<noteq> [resolve_api_key_spec (AStr []) (AStr ''cfg'')]"
  by (simp add: pass_api_client_def example_ctx_def enrich_params_def example_env_def
      dict_get_def subscript_def returns_client_def bind_def emit_def ok_def
      resolve_api_key_spec_def Let_def)

lemma api_key_help_names:
  "\<exists>a b c d. api_key_help env prog =
     a @ ''-k/--api-key'' @ b @ ''SUBLIME_API_KEY'' @ c
     @ py_repr (repr_other env) (prog @ '' setup'') @ d"
proof -
  have "api_key_help env prog =
     (nl @ ''Error: API key not found.'' @ nl @ nl
      @ ''To fix this problem, please use any of the following methods ''
      @ ''(in order of precedence):'' @ nl @ ''- Pass it using the '')
     @ ''-k/--api-key''
     @ ('' option.'' @ nl @ ''- Set it in the '')
     @ ''SUBLIME_API_KEY''
     @ ('' environment variable.'' @ nl @ ''- Run '')
     @ py_repr (repr_other env) (prog @ '' setup'')
     @ ('' to save it to the configuration file.'' @ nl)"
    by (simp add: api_key_help_def)
  then show ?thesis by blast
qed

text \<open>
  C2, as amended. With no \<^verbatim>\<open>-k\<close> value and an empty (or \<^verbatim>\<open>None\<close>) persisted key, the
  help message is written to standard output and \<^verbatim>\<open>context.exit(-1)\<close> ends the run
  before any client is built or the subcommand is called. When the flag is absent or
  non-empty, a client is only ever built with a non-empty key; the other runs end with that
  exit or with the \<^verbatim>\<open>KeyError\<close> of a configuration without the field. The message names
  the flag, the environment variable and the setup command, in this order.
\<close>

theorem pass_api_client_key_nonempty:
  "(dict_get (params ctx) ''api_key'' = ANone
      \<and> subscript (load_config env) ''api_key'' = Inr k \<and> \<not> truthy k \<longrightarrow>
      pass_api_client env ctx function kwargs =
        (Inl (Exit (-1)), [Write Stdout (api_key_help env (prog_name ctx) @ nl)])
      \<and> click_main (pass_api_client env ctx function kwargs) =
        (-1, [Write Stdout (api_key_help env (prog_name ctx) @ nl)]))
   \<and> (dict_get (params ctx) ''api_key'' = ANone \<or> truthy (dict_get (params ctx) ''api_key'') \<longrightarrow>
      (\<exists>k'. truthy k' \<and> pass_api_client env ctx function kwargs =
              bind (emit (Construct k')) (\<lambda>_. function (Sublime k') kwargs))
      \<or> pass_api_client env ctx function kwargs =
           (Inl (Exit (-1)), [Write Stdout (api_key_help env (prog_name ctx) @ nl)])
      \<or> pass_api_client env ctx function kwargs = (Inl KeyError, []))
   \<and> (\<exists>a b c d. api_key_help env (prog_name ctx) =
         a @ ''-k/--api-key'' @ b @ ''SUBLIME_API_KEY'' @ c
         @ py_repr (repr_other env) (prog_name ctx @ '' setup'') @ d)"
proof (intro conjI impI)
  assume "dict_get (params ctx) ''api_key'' = ANone
      \<and> subscript (load_config env) ''api_key'' = Inr k \<and> \<not> truthy k"
  then show "pass_api_client env ctx function kwargs =
        (Inl (Exit (-1)), [Write Stdout (api_key_help env (prog_name ctx) @ nl)])"
    by (simp add: pass_api_client_missing)
  then show "click_main (pass_api_client env ctx function kwargs) =
        (-1, [Write Stdout (api_key_help env (prog_name ctx) @ nl)])"
    by (simp add: click_main_def)
next
  assume flag: "dict_get (params ctx) ''api_key'' = ANone \<or> truthy (dict_get (params ctx) ''api_key'')"
  show "(\<exists>k'. truthy k' \<and> pass_api_client env ctx function kwargs =
              bind (emit (Construct k')) (\<lambda>_. function (Sublime k') kwargs))
      \<or> pass_api_client env ctx function kwargs =
           (Inl (Exit (-1)), [Write Stdout (api_key_help env (prog_name ctx) @ nl)])
      \<or> pass_api_client env ctx function kwargs = (Inl KeyError, [])"
  proof (cases "dict_get (params ctx) ''api_key'' = ANone")
    case False
    with flag have "truthy (dict_get (params ctx) ''api_key'')" by simp
    with False show ?thesis using pass_api_client_flag [of ctx env "function" kwargs] by blast
  next
    case True
    show ?thesis
    proof (cases "subscript (load_config env) ''api_key''")
      case (Inl e)
      then have "e = KeyError" by (auto simp: subscript_def split: option.splits)
      with True Inl show ?thesis by (simp add: pass_api_client_no_config)
    next
      case (Inr c)
      show ?thesis
      proof (cases "truthy c")
        case True
        with \<open>dict_get (params ctx) ''api_key'' = ANone\<close> Inr show ?thesis
          using pass_api_client_config [of ctx env c "function" kwargs] by blast
      next
        case False
        with \<open>dict_get (params ctx) ''api_key'' = ANone\<close> Inr show ?thesis
          by (simp add: pass_api_client_missing)
      qed
    qed
  qed
next
  show "\<exists>a b c d. api_key_help env (prog_name ctx) =
         a @ ''-k/--api-key'' @ b @ ''SUBLIME_API_KEY'' @ c
         @ py_repr (repr_other env) (prog_name ctx @ '' setup'') @ d"
    by (rule api_key_help_names)
qed

theorem pass_api_client_key_nonempty_witness:
  "click_main (pass_api_client (example_env\<lparr>load_config := [(''api_key'', AStr [])]\<rparr>)
     (example_ctx ''enrich'' (enrich_params ANone (File ''report.eml'') ANone ''json''))
     returns_client [])
   = (-1, [Write Stdout (api_key_help example_env ''sublime'' @ nl)])"
proof -
  let ?env = "example_env\<lparr>load_config := [(''api_key'', AStr [])]\<rparr>"
  let ?ctx = "example_ctx ''enrich'' (enrich_params ANone (File ''report.eml'') ANone ''json'')"
  have h: "dict_get (params ?ctx) ''api_key'' = ANone
      \<and> subscript (load_config ?env) ''api_key'' = Inr (AStr []) \<and> \<not> truthy (AStr [])"
    by (simp add: example_ctx_def enrich_params_def dict_get_def subscript_def)
  from pass_api_client_key_nonempty [of ?ctx ?env "AStr []" returns_client "[]"] h
  have "click_main (pass_api_client ?env ?ctx returns_client []) =
        (-1, [Write Stdout (api_key_help ?env (prog_name ?ctx) @ nl)])"
    by blast
  then show ?thesis
    by (simp add: example_ctx_def api_key_help_def example_env_def)
qed

text \<open>
  C2 as stated fails for an empty flag value: with \<^verbatim>\<open>-k ""\<close> and an empty persisted key,
  a client is built with the empty key, and no help message is written.
\<close>

theorem empty_flag_key_counterexample:
  "\<not> list_all truthy (constructed (snd (pass_api_client
       (example_env\<lparr>load_config := [(''api_key'', AStr [])]\<rparr>)
       (example_ctx ''enrich'' (enrich_params (AStr []) (File ''report.eml'') ANone ''json''))
       returns_client [])))"
  by (simp add: pass_api_client_def example_ctx_def enrich_params_def example_env_def
      dict_get_def subscript_def returns_client_def bind_def emit_def ok_def Let_def)


section \<open>Classified API failures\<close>


lemma catch_Inr: "m = (Inr x, tr) \<Longrightarrow> catch m h = (Inr x, tr)"
  by (simp add: catch_def)

lemma handle_exceptions_returns:
  "function api_client kwargs = (Inr result, tr) \<Longrightarrow>
   handle_exceptions env function api_client kwargs = (Inr result, tr)"
  by (simp add: handle_exceptions_def catch_Inr)






lemma call_eq: "call function api_client kwargs = (function api_client kwargs, [Call api_client kwargs])"
  by (simp add: call_def bind_emit lift_def)











section \<open>The analyze command\<close>

lemma click_open_file_ok:
  "name \<noteq> ''-'' \<Longrightarrow> open_error env name mode = None \<Longrightarrow>
   click_open_file env name mode = (Inr (File name), [OpenFile name mode])"
  by (simp add: click_open_file_def bind_emit ok_def)




lemma analyze_wrapper_supplied:
  assumes "truthy (dict_get kwargs ''detections_file'') \<or> truthy (dict_get kwargs ''detection_str'')"
  shows "analyze_wrapper env function api_client kwargs =
     (function api_client kwargs, [Call api_client kwargs])"
  using assms by (auto simp: analyze_wrapper_def call_eq)









section \<open>Commands that are not implemented\<close>

lemma py_repr_plain: "list_all plain s \<Longrightarrow> py_repr other s = [CHR 0x27] @ s @ [CHR 0x27]"
  by (simp add: py_repr_def)

lemma not_implemented_command_resolved:
  assumes "params ctx = []" and "subscript (load_config env) ''api_key'' = Inr k" and "truthy k"
  shows "not_implemented_command env function_name ctx =
     (case not_implemented env (Sublime k) function_name of
        Inr v \<Rightarrow> (Inr PNone, [Construct k, Probe (Sublime k) function_name])
      | Inl e \<Rightarrow>
          (Inl (if isinstance e RequestFailure then SubcommandNotImplemented env function_name
                else e),
           [Construct k, Probe (Sublime k) function_name]))"
proof -
  have "dict_get (params ctx) ''api_key'' = ANone"
    using assms(1) by (simp add: dict_get_def)
  then show ?thesis
    using assms(2,3)
    by (simp add: not_implemented_command_def pass_api_client_config bind_def emit_def catch_def
        lift_def raise_def ok_def split: sum.splits)
qed

text \<open>
  C9, as amended. A placeholder command declares no option, so its key is the persisted one.
  Once the key is resolved, the client is built and the probe is called with the name of
  the decorated function. When the probe raises a \<^verbatim>\<open>RequestFailure\<close>, click shows
  \<^verbatim>\<open>Error: 'name' subcommand is not implemented yet.\<close> and the status is 1; any other
  exception of the probe propagates as it is.
\<close>

theorem not_implemented_probe:
  assumes "params ctx = []"
      and "subscript (load_config env) ''api_key'' = Inr k" and "truthy k"
  shows "snd (not_implemented_command env function_name ctx) =
           [Construct k, Probe (Sublime k) function_name]
       \<and> (not_implemented env (Sublime k) function_name = Inl e \<and> isinstance e RequestFailure \<longrightarrow>
          click_main (not_implemented_command env function_name ctx) =
            (1, [Construct k, Probe (Sublime k) function_name,
                 Write Stderr (''Error: '' @ py_repr (repr_other env) function_name
                               @ '' subcommand is not implemented yet.'' @ nl)]))
       \<and> (list_all plain function_name \<longrightarrow>
          py_repr (repr_other env) function_name = [CHR 0x27] @ function_name @ [CHR 0x27])
       \<and> (not_implemented env (Sublime k) function_name = Inl e \<and> \<not> isinstance e RequestFailure \<longrightarrow>
          fst (not_implemented_command env function_name ctx) = Inl e)"
  using assms
  by (auto simp: not_implemented_command_resolved click_main_def SubcommandNotImplemented_def
      py_repr_plain split: sum.splits)

theorem not_implemented_probe_witness:
  "click_main (not_implemented_command (example_env\<lparr>not_implemented := probe_fails request_failed\<rparr>)
      ''feedback'' (example_ctx ''feedback'' []))
   = (1, [Construct (AStr ''cfg''), Probe (Sublime (AStr ''cfg'')) ''feedback'',
          Write Stderr (''Error: '' @ [CHR 0x27] @ ''feedback'' @ [CHR 0x27]
                        @ '' subcommand is not implemented yet.'' @ nl)])"
proof -
  let ?env = "example_env\<lparr>not_implemented := probe_fails request_failed\<rparr>"
  let ?ctx = "example_ctx ''feedback'' []"
  have h: "params ?ctx = []" "subscript (load_config ?env) ''api_key'' = Inr (AStr ''cfg'')"
      "truthy (AStr ''cfg'')"
    by (simp_all add: example_ctx_def example_env_def subscript_def)
  have probe: "not_implemented ?env (Sublime (AStr ''cfg'')) ''feedback'' = Inl request_failed
      \<and> isinstance request_failed RequestFailure"
    by (simp add: probe_fails_def request_failed_def)
  have name: "list_all plain ''feedback''"
    by (simp add: plain_def)
  from not_implemented_probe [OF h, of "''feedback''" request_failed] probe name
  show ?thesis by simp
qed

text \<open>
  C9 as stated fails for a transport failure: a probe that raises a \<^verbatim>\<open>RequestException\<close>
  is not caught, and the user sees the traceback of that exception, not the message.
\<close>

theorem probe_transport_failure_counterexample:
  "click_main (not_implemented_command example_env ''feedback'' (example_ctx ''feedback'' []))
   = (1, [Construct (AStr ''cfg''), Probe (Sublime (AStr ''cfg'')) ''feedback'',
          Traceback (ApiException [RequestException] [] ''refused'')])
   \<and> Write Stderr (''Error: '' @ [CHR 0x27] @ ''feedback'' @ [CHR 0x27]
                   @ '' subcommand is not implemented yet.'' @ nl)
       \<notin> set (snd (click_main
           (not_implemented_command example_env ''feedback'' (example_ctx ''feedback'' []))))"
proof -
  have "not_implemented_command example_env ''feedback'' (example_ctx ''feedback'' []) =
      (Inl (ApiException [RequestException] [] ''refused''),
       [Construct (AStr ''cfg''), Probe (Sublime (AStr ''cfg'')) ''feedback''])"
    by (subst not_implemented_command_resolved [where k = "AStr ''cfg''"])
      (simp_all add: example_ctx_def example_env_def subscript_def)
  then show ?thesis by (simp add: click_main_def)
qed

section \<open>Rendering and emission\<close>

text \<open>What a run of \<^verbatim>\<open>echo_result\<close> that returns has done, part by part.\<close>

lemma lift_eq_Inr: "lift r = (Inr x, tr) \<longleftrightarrow> r = Inr x \<and> tr = []"
  by (auto simp: lift_def)

lemma ok_eq: "ok x = (r, tr) \<longleftrightarrow> r = Inr x \<and> tr = []"
  by (auto simp: ok_def)

lemma render_eq:
  "render formatter result v =
     (Inr (snd formatter result v), [Render (fst formatter) result v])"
  by (simp add: render_def bind_emit ok_def)

lemma click_echo_eq_Inr:
  "click_echo message file = (Inr u, tr) \<longleftrightarrow>
     (\<exists>s. target file = Inr s \<and> tr = [Write s (message @ nl)])"
  by (cases "target file") (auto simp: click_echo_def emit_def raise_def)

lemma details_formatter_keys:
  "details_formatter env = Inr formatter \<Longrightarrow> fst formatter = [''txt'', ''enrich_details'']"
  by (auto simp: details_formatter_def split: option.splits formatter_entry.splits)

lemma click_open_file_success:
  "click_open_file env name mode = (Inr pf, opened) \<Longrightarrow>
     (name = ''-'' \<and> opened = [] \<and> (\<exists>n. pf = Std n))
   \<or> (name \<noteq> ''-'' \<and> open_error env name mode = None \<and> pf = File name
        \<and> opened = [OpenFile name mode])"
  by (auto simp: click_open_file_def ok_def raise_def bind_emit split: if_splits option.splits)

lemma default_output_file_success:
  assumes "default_output_file env ps fmt = (Inr ps', opened)"
  shows "(truthy (dict_get ps ''output_file'') \<and> ps' = ps \<and> opened = [])
   \<or> (\<not> truthy (dict_get ps ''output_file'')
       \<and> (\<exists>f pf. dict_get ps ''input_file'' = AFile f
             \<and> click_open_file env (output_file_name (file_name f) fmt) ''w'' = (Inr pf, opened)
             \<and> ps' = AList.update ''output_file'' (AFile pf) ps))"
proof (cases "truthy (dict_get ps ''output_file'')")
  case True
  with assms show ?thesis by (simp add: default_output_file_def ok_eq)
next
  case False
  with assms obtain n pf where n: "name_attr (dict_get ps ''input_file'') = Inr n"
    and pf: "click_open_file env (output_file_name n fmt) ''w'' = (Inr pf, opened)"
    and ps': "ps' = AList.update ''output_file'' (AFile pf) ps"
    by (auto simp: default_output_file_def bind_eq_Inr lift_eq_Inr ok_eq)
  from n obtain f where "dict_get ps ''input_file'' = AFile f" "n = file_name f"
    by (cases "dict_get ps ''input_file''") auto
  with False pf ps' show ?thesis by auto
qed

lemma enrich_block_success:
  assumes "enrich_block env ps fmt result = (Inr (ps', narrowed), tr1)"
  shows "\<exists>details opened.
      default_output_file env ps fmt = (Inr ps', opened)
    \<and> details_formatter env = Inr ([''txt'', ''enrich_details''], details)
    \<and> getitem result ''message_data_model'' = Inr narrowed
    \<and> tr1 = opened @
        [Render [''txt'', ''enrich_details''] result (dict_get_default ps' ''verbose'' (ABool False)),
         Write Stdout
           (strip nl (details result (dict_get_default ps' ''verbose'' (ABool False))) @ nl)]"
proof -
  from assms obtain opened formatter where
      d: "default_output_file env ps fmt = (Inr ps', opened)"
    and f: "details_formatter env = Inr formatter"
    and g: "getitem result ''message_data_model'' = Inr narrowed"
    and tr1: "tr1 = opened @
        [Render (fst formatter) result (dict_get_default ps' ''verbose'' (ABool False)),
         Write Stdout
           (strip nl (snd formatter result (dict_get_default ps' ''verbose'' (ABool False))) @ nl)]"
    by (auto simp: enrich_block_def bind_eq_Inr lift_eq_Inr ok_eq render_eq click_echo_eq_Inr)
  obtain keys details where formatter: "formatter = (keys, details)"
    by (cases formatter)
  with details_formatter_keys [OF f] have "keys = [''txt'', ''enrich_details'']"
    by simp
  with d f g tr1 formatter show ?thesis by simp
qed

lemma echo_output_success:
  assumes "echo_output formatter ps val = (Inr u, tr)"
  shows "\<exists>dest. target (dict_get_default ps ''output_file'' (AFile (Std ''<stdout>''))) = Inr dest
    \<and> tr = [Render (fst formatter) val (dict_get_default ps ''verbose'' (ABool False)),
            Write dest
              (strip nl (snd formatter val (dict_get_default ps ''verbose'' (ABool False))) @ nl)]
           @ (case dict_get ps ''output_file'' of
                AFile f \<Rightarrow> [Write Stdout (''Output saved to '' @ file_name f @ nl)]
              | _ \<Rightarrow> [])"
proof -
  from assms obtain dest rest where
      dest: "target (dict_get_default ps ''output_file'' (AFile (Std ''<stdout>''))) = Inr dest"
    and rest: "(let file_name = dict_get ps ''output_file''
         in if truthy file_name then
              bind (lift (name_attr file_name)) (\<lambda>n.
                click_echo (''Output saved to '' @ n) ANone)
            else ok ()) = (Inr u, rest)"
    and tr: "tr = [Render (fst formatter) val (dict_get_default ps ''verbose'' (ABool False)),
            Write dest
              (strip nl (snd formatter val (dict_get_default ps ''verbose'' (ABool False))) @ nl)]
           @ rest"
    by (auto simp: echo_output_def bind_eq_Inr render_eq click_echo_eq_Inr)
  have key: "dict_get_default ps ''output_file'' (AFile (Std ''<stdout>'')) = dict_get ps ''output_file''
      \<or> dict_get ps ''output_file'' = ANone"
    by (simp add: dict_get_default_def dict_get_def split: option.splits)
  have "rest = (case dict_get ps ''output_file'' of
                AFile f \<Rightarrow> [Write Stdout (''Output saved to '' @ file_name f @ nl)]
              | _ \<Rightarrow> [])"
  proof (cases "dict_get ps ''output_file''")
    case ANone
    with rest show ?thesis by (simp add: ok_eq)
  next
    case (ABool b)
    with key dest show ?thesis by auto
  next
    case (AStr s)
    with key dest show ?thesis by auto
  next
    case (AFile f)
    with rest show ?thesis by (simp add: bind_emit emit_def)
  qed
  with dest tr show ?thesis by simp
qed

lemma echo_result_success:
  assumes "echo_result env ctx function api_client kwargs = (Inr u, tr)"
  shows "\<exists>result tr0 fmt keys fn ps val tr1 dest.
      function api_client kwargs = (Inr result, tr0)
    \<and> subscript (params ctx) ''output_format'' = Inr fmt
    \<and> resolve_formatter env fmt (command_name ctx) = Inr (keys, fn)
    \<and> (if command_name ctx = ''enrich'' then enrich_block env (params ctx) fmt result
        else ok (params ctx, result)) = (Inr (ps, val), tr1)
    \<and> target (dict_get_default ps ''output_file'' (AFile (Std ''<stdout>''))) = Inr dest
    \<and> tr = tr0 @ tr1 @
        [Render keys val (dict_get_default ps ''verbose'' (ABool False)),
         Write dest (strip nl (fn val (dict_get_default ps ''verbose'' (ABool False))) @ nl)]
        @ (case dict_get ps ''output_file'' of
             AFile f \<Rightarrow> [Write Stdout (''Output saved to '' @ file_name f @ nl)]
           | _ \<Rightarrow> [])"
proof -
  from assms obtain result tr0 fmt formatter ps val tr1 tr2 where
      a: "function api_client kwargs = (Inr result, tr0)"
    and b: "subscript (params ctx) ''output_format'' = Inr fmt"
    and c: "resolve_formatter env fmt (command_name ctx) = Inr formatter"
    and d: "(if command_name ctx = ''enrich'' then enrich_block env (params ctx) fmt result
        else ok (params ctx, result)) = (Inr (ps, val), tr1)"
    and e: "echo_output formatter ps val = (Inr u, tr2)"
    and tr: "tr = tr0 @ tr1 @ tr2"
    unfolding echo_result_def bind_eq_Inr lift_eq_Inr
    by (auto split: prod.splits)
  obtain keys fn where formatter: "formatter = (keys, fn)"
    by (cases formatter)
  from echo_output_success [OF e] formatter a b c d tr show ?thesis
    by auto
qed

section \<open>Runs that return\<close>

lemma raise_neq_Inr [simp]: "raise e \<noteq> (Inr x, tr)"
  by (simp add: raise_def)

lemma call_eq_Inr:
  "call function api_client kwargs = (Inr result, tr) \<longleftrightarrow>
     function api_client kwargs = Inr result \<and> tr = [Call api_client kwargs]"
  by (auto simp: call_eq)

lemma handle_exceptions_success:
  assumes "handle_exceptions env function api_client kwargs = (Inr result, tr)"
  shows "function api_client kwargs = (Inr result, tr)"
proof (cases "function api_client kwargs")
  case (Pair r tr0)
  show ?thesis
  proof (cases r)
    case (Inr x)
    with Pair assms show ?thesis by (simp add: handle_exceptions_def catch_def)
  next
    case (Inl e)
    with Pair assms have False
      by (auto simp: handle_exceptions_def catch_def bind_eq_Inr split: prod.splits if_splits)
    then show ?thesis ..
  qed
qed

lemma pass_api_client_success:
  assumes "pass_api_client env ctx function kwargs = (Inr u, tr)"
  shows "\<exists>k tr'. tr = Construct k # tr' \<and> function (Sublime k) kwargs = (Inr u, tr')
     \<and> (dict_get (params ctx) ''api_key'' = k \<and> k \<noteq> ANone
        \<or> dict_get (params ctx) ''api_key'' = ANone
          \<and> subscript (load_config env) ''api_key'' = Inr k \<and> truthy k)"
proof (cases "dict_get (params ctx) ''api_key'' = ANone")
  case False
  with assms show ?thesis
    by (auto simp: pass_api_client_flag bind_emit prod_eq_iff)
next
  case True
  show ?thesis
  proof (cases "subscript (load_config env) ''api_key''")
    case (Inl e)
    with True assms show ?thesis by (simp add: pass_api_client_no_config)
  next
    case (Inr k)
    show ?thesis
    proof (cases "truthy k")
      case False
      with True Inr assms show ?thesis by (simp add: pass_api_client_missing)
    next
      case t: True
      with True Inr assms show ?thesis
        by (auto simp: pass_api_client_config bind_emit prod_eq_iff)
    qed
  qed
qed

lemma target_file: "target v = Inr dest \<Longrightarrow> truthy v \<Longrightarrow> \<exists>f. v = AFile f"
  by (cases v) auto

lemma dict_get_default_truthy:
  "truthy (dict_get ps k) \<Longrightarrow> dict_get_default ps k d = dict_get ps k"
  by (auto simp: dict_get_def dict_get_default_def split: option.splits)

lemma dict_get_update [simp]: "dict_get (AList.update k v ps) k = v"
  by (simp add: dict_get_def update_conv')

lemma dict_get_default_update [simp]: "dict_get_default (AList.update k v ps) k d = v"
  by (simp add: dict_get_default_def update_conv')

lemma dict_get_default_update_other [simp]:
  "k' \<noteq> k \<Longrightarrow> dict_get_default (AList.update k v ps) k' d = dict_get_default ps k' d"
  by (simp add: dict_get_default_def update_conv')

lemma default_output_file_file:
  assumes "default_output_file env ps fmt = (Inr ps', opened)"
      and "target (dict_get_default ps' ''output_file'' d) = Inr dest"
  shows "\<exists>f. dict_get ps' ''output_file'' = AFile f
           \<and> dict_get_default ps' ''output_file'' d = AFile f
           \<and> dict_get_default ps' ''verbose'' (ABool False) = dict_get_default ps ''verbose'' (ABool False)"
  using default_output_file_success [OF assms(1)]
proof
  assume h: "truthy (dict_get ps ''output_file'') \<and> ps' = ps \<and> opened = []"
  then have "dict_get_default ps ''output_file'' d = dict_get ps ''output_file''"
    by (simp add: dict_get_default_truthy)
  with h assms(2) target_file [of "dict_get ps ''output_file''" dest] show ?thesis by auto
next
  assume "\<not> truthy (dict_get ps ''output_file'')
       \<and> (\<exists>f pf. dict_get ps ''input_file'' = AFile f
             \<and> click_open_file env (output_file_name (file_name f) fmt) ''w'' = (Inr pf, opened)
             \<and> ps' = AList.update ''output_file'' (AFile pf) ps)"
  then show ?thesis by auto
qed

lemma echo_result_enrich_success:
  assumes "echo_result env ctx function api_client kwargs = (Inr u, tr)"
      and "command_name ctx = ''enrich''"
  shows "\<exists>result tr0 fmt keys fn details ps' opened narrowed f dest.
      function api_client kwargs = (Inr result, tr0)
    \<and> subscript (params ctx) ''output_format'' = Inr fmt
    \<and> resolve_formatter env fmt ''enrich'' = Inr (keys, fn)
    \<and> details_formatter env = Inr ([''txt'', ''enrich_details''], details)
    \<and> default_output_file env (params ctx) fmt = (Inr ps', opened)
    \<and> getitem result ''message_data_model'' = Inr narrowed
    \<and> dict_get ps' ''output_file'' = AFile f
    \<and> target (AFile f) = Inr dest
    \<and> tr = tr0 @ opened @
        [Render [''txt'', ''enrich_details''] result
           (dict_get_default (params ctx) ''verbose'' (ABool False)),
         Write Stdout
           (strip nl (details result (dict_get_default (params ctx) ''verbose'' (ABool False))) @ nl),
         Render keys narrowed (dict_get_default (params ctx) ''verbose'' (ABool False)),
         Write dest
           (strip nl (fn narrowed (dict_get_default (params ctx) ''verbose'' (ABool False))) @ nl),
         Write Stdout (''Output saved to '' @ file_name f @ nl)]"
proof -
  from echo_result_success [OF assms(1)] assms(2)
  obtain result tr0 fmt keys fn ps' narrowed tr1 dest where
      a: "function api_client kwargs = (Inr result, tr0)"
    and b: "subscript (params ctx) ''output_format'' = Inr fmt"
    and c: "resolve_formatter env fmt ''enrich'' = Inr (keys, fn)"
    and d: "enrich_block env (params ctx) fmt result = (Inr (ps', narrowed), tr1)"
    and e: "target (dict_get_default ps' ''output_file'' (AFile (Std ''<stdout>''))) = Inr dest"
    and tr: "tr = tr0 @ tr1 @
        [Render keys narrowed (dict_get_default ps' ''verbose'' (ABool False)),
         Write dest (strip nl (fn narrowed (dict_get_default ps' ''verbose'' (ABool False))) @ nl)]
        @ (case dict_get ps' ''output_file'' of
             AFile f \<Rightarrow> [Write Stdout (''Output saved to '' @ file_name f @ nl)]
           | _ \<Rightarrow> [])"
    by auto
  from enrich_block_success [OF d] obtain details opened where
      f: "default_output_file env (params ctx) fmt = (Inr ps', opened)"
    and g: "details_formatter env = Inr ([''txt'', ''enrich_details''], details)"
    and h: "getitem result ''message_data_model'' = Inr narrowed"
    and tr1: "tr1 = opened @
        [Render [''txt'', ''enrich_details''] result (dict_get_default ps' ''verbose'' (ABool False)),
         Write Stdout
           (strip nl (details result (dict_get_default ps' ''verbose'' (ABool False))) @ nl)]"
    by auto
  from default_output_file_file [OF f e] obtain fl where
      i: "dict_get ps' ''output_file'' = AFile fl"
    and j: "dict_get_default ps' ''output_file'' (AFile (Std ''<stdout>'')) = AFile fl"
    and v: "dict_get_default ps' ''verbose'' (ABool False) =
            dict_get_default (params ctx) ''verbose'' (ABool False)"
    by auto
  from a b c g f h i e j tr tr1 v show ?thesis by auto
qed

lemma map_of_size:
  "map_of kvs k = Some v \<Longrightarrow> size (v :: pyval) < size (PDict kvs)"
  by (induction kvs) (auto split: if_splits)

lemma getitem_smaller: "getitem result k = Inr v \<Longrightarrow> size v < size result"
  by (cases result) (auto simp: subscript_def dest: map_of_size split: option.splits)

lemma getitem_neq: "getitem result k = Inr v \<Longrightarrow> v \<noteq> result"
  using getitem_smaller by fastforce

lemma enrich_command_success:
  assumes "enrich_command env function ctx = (Inr u, tr)"
      and "command_name ctx = ''enrich''"
  shows "\<exists>k result fmt keys fn details ps' opened narrowed f dest.
      function (Sublime k) (params ctx) = Inr result
    \<and> subscript (params ctx) ''output_format'' = Inr fmt
    \<and> resolve_formatter env fmt ''enrich'' = Inr (keys, fn)
    \<and> details_formatter env = Inr ([''txt'', ''enrich_details''], details)
    \<and> default_output_file env (params ctx) fmt = (Inr ps', opened)
    \<and> getitem result ''message_data_model'' = Inr narrowed
    \<and> dict_get ps' ''output_file'' = AFile f
    \<and> target (AFile f) = Inr dest
    \<and> tr = [Construct k, Call (Sublime k) (params ctx)] @ opened @
        [Render [''txt'', ''enrich_details''] result
           (dict_get_default (params ctx) ''verbose'' (ABool False)),
         Write Stdout
           (strip nl (details result (dict_get_default (params ctx) ''verbose'' (ABool False))) @ nl),
         Render keys narrowed (dict_get_default (params ctx) ''verbose'' (ABool False)),
         Write dest
           (strip nl (fn narrowed (dict_get_default (params ctx) ''verbose'' (ABool False))) @ nl),
         Write Stdout (''Output saved to '' @ file_name f @ nl)]"
proof -
  from assms(1) have "pass_api_client env ctx
       (echo_result env ctx (handle_exceptions env (call function))) (params ctx) = (Inr u, tr)"
    by (simp add: enrich_command_def)
  from pass_api_client_success [OF this] obtain k tr' where tr: "tr = Construct k # tr'"
    and run: "echo_result env ctx (handle_exceptions env (call function)) (Sublime k) (params ctx)
                = (Inr u, tr')"
    by auto
  from echo_result_enrich_success [OF run assms(2)]
  obtain result tr0 fmt keys fn details ps' opened narrowed f dest where
      a: "handle_exceptions env (call function) (Sublime k) (params ctx) = (Inr result, tr0)"
    and rest: "subscript (params ctx) ''output_format'' = Inr fmt"
      "resolve_formatter env fmt ''enrich'' = Inr (keys, fn)"
      "details_formatter env = Inr ([''txt'', ''enrich_details''], details)"
      "default_output_file env (params ctx) fmt = (Inr ps', opened)"
      "getitem result ''message_data_model'' = Inr narrowed"
      "dict_get ps' ''output_file'' = AFile f"
      "target (AFile f) = Inr dest"
    and tr': "tr' = tr0 @ opened @
        [Render [''txt'', ''enrich_details''] result
           (dict_get_default (params ctx) ''verbose'' (ABool False)),
         Write Stdout
           (strip nl (details result (dict_get_default (params ctx) ''verbose'' (ABool False))) @ nl),
         Render keys narrowed (dict_get_default (params ctx) ''verbose'' (ABool False)),
         Write dest
           (strip nl (fn narrowed (dict_get_default (params ctx) ''verbose'' (ABool False))) @ nl),
         Write Stdout (''Output saved to '' @ file_name f @ nl)]"
    by auto
  from handle_exceptions_success [OF a]
  have "function (Sublime k) (params ctx) = Inr result" "tr0 = [Call (Sublime k) (params ctx)]"
    by (simp_all add: call_eq_Inr)
  with rest tr tr' show ?thesis by auto
qed

section \<open>The enrich command\<close>

lemma enrich_with_output_run:
  "enrich_command example_env returns_result enrich_with_output =
     (Inr (),
      [Construct (AStr ''key''),
       Call (Sublime (AStr ''key'')) (params enrich_with_output),
       Render [''txt'', ''enrich_details''] example_result (ABool False),
       Write Stdout (''details message_data_model details'' @ nl),
       Render [''json''] (PDict [(''subject'', PStr ''hello'')]) (ABool False),
       Write (ToFile ''out.json'') (''json subject'' @ nl),
       Write Stdout (''Output saved to out.json'' @ nl)])"
proof -
  have key: "dict_get (params enrich_with_output) ''api_key'' \<noteq> ANone"
    by (simp add: enrich_with_output_def example_ctx_def enrich_params_def dict_get_def)
  have call: "handle_exceptions example_env (call returns_result) (Sublime (AStr ''key''))
        (params enrich_with_output) =
      (Inr example_result, [Call (Sublime (AStr ''key'')) (params enrich_with_output)])"
    by (simp add: handle_exceptions_returns call_eq returns_result_def)
  have d: "strip nl (example_formatter ''details'' example_result (ABool False)) =
      ''details message_data_model details''"
    unfolding example_formatter_def example_result_def
    by (simp add: strip_def nl_def)
  have j: "strip nl (example_formatter ''json'' (PDict [(''subject'', PStr ''hello'')]) (ABool False)) =
      ''json subject''"
    unfolding example_formatter_def
    by (simp add: strip_def nl_def)
  have g: "getitem example_result ''message_data_model'' = Inr (PDict [(''subject'', PStr ''hello'')])"
    by (simp add: example_result_def subscript_def)
  have block: "enrich_block example_env (params enrich_with_output) (AStr ''json'') example_result =
      (Inr (params enrich_with_output, PDict [(''subject'', PStr ''hello'')]),
       [Render [''txt'', ''enrich_details''] example_result (ABool False),
        Write Stdout (''details message_data_model details'' @ nl)])"
    by (simp add: enrich_block_def default_output_file_def details_formatter_def render_eq
        click_echo_ok bind_Inr d g enrich_with_output_def example_ctx_def enrich_params_def
        example_env_def dict_get_def dict_get_default_def ok_def)
  have out: "echo_output ([''json''], example_formatter ''json'') (params enrich_with_output)
        (PDict [(''subject'', PStr ''hello'')]) =
      (Inr (),
       [Render [''json''] (PDict [(''subject'', PStr ''hello'')]) (ABool False),
        Write (ToFile ''out.json'') (''json subject'' @ nl),
        Write Stdout (''Output saved to out.json'' @ nl)])"
    by (simp add: echo_output_def render_eq click_echo_ok bind_Inr j bind_emit emit_def
        enrich_with_output_def example_ctx_def enrich_params_def dict_get_def dict_get_default_def)
  have name: "command_name enrich_with_output = ''enrich''"
    by (simp add: enrich_with_output_def example_ctx_def)
  have fmt: "subscript (params enrich_with_output) ''output_format'' = Inr (AStr ''json'')"
    by (simp add: enrich_with_output_def example_ctx_def enrich_params_def subscript_def)
  have res: "resolve_formatter example_env (AStr ''json'') ''enrich'' =
      Inr ([''json''], example_formatter ''json'')"
    by (simp add: resolve_formatter_def example_env_def)
  have "echo_result example_env enrich_with_output (handle_exceptions example_env (call returns_result))
        (Sublime (AStr ''key'')) (params enrich_with_output) =
      (Inr (),
       [Call (Sublime (AStr ''key'')) (params enrich_with_output),
        Render [''txt'', ''enrich_details''] example_result (ABool False),
        Write Stdout (''details message_data_model details'' @ nl),
        Render [''json''] (PDict [(''subject'', PStr ''hello'')]) (ABool False),
        Write (ToFile ''out.json'') (''json subject'' @ nl),
        Write Stdout (''Output saved to out.json'' @ nl)])"
    by (simp add: echo_result_def call name fmt res block out bind_Inr)
  moreover have "dict_get (params enrich_with_output) ''api_key'' = AStr ''key''"
    by (simp add: enrich_with_output_def example_ctx_def enrich_params_def dict_get_def)
  ultimately show ?thesis
    by (simp add: enrich_command_def pass_api_client_flag bind_emit)
qed

lemma opened_events:
  assumes "default_output_file env ps fmt = (Inr ps', opened)"
  shows "opened = [] \<or> (\<exists>name. opened = [OpenFile name ''w''])"
  using default_output_file_success [OF assms] click_open_file_success by blast

lemma explicit_output_file:
  assumes "default_output_file env ps fmt = (Inr ps', opened)"
      and "truthy (dict_get ps ''output_file'')"
  shows "ps' = ps \<and> opened = []"
  using default_output_file_success [OF assms(1)] assms(2) by blast

lemma enrich_block_narrowing_fails:
  assumes "default_output_file env ps fmt = (Inr ps', opened)"
      and "details_formatter env = Inr (keys, details)"
      and "getitem result ''message_data_model'' = Inl e"
  shows "enrich_block env ps fmt result =
     (Inl e, opened @
        [Render keys result (dict_get_default ps' ''verbose'' (ABool False)),
         Write Stdout
           (strip nl (details result (dict_get_default ps' ''verbose'' (ABool False))) @ nl)])"
  using assms
  by (simp add: enrich_block_def bind_Inr render_eq click_echo_ok raise_def)

text \<open>
  C5. A run of the enrich command that returns has built the client, called the subcommand,
  opened the default output file if none was given, and then: rendered the result with
  \<^verbatim>\<open>FORMATTERS["txt"]["enrich_details"]\<close> and written that text, stripped, to standard
  output; rendered the narrowed result with the formatter of the output format and written
  it to the output file; and named that file on standard output. With an explicit output
  file nothing else is opened, and the second text goes to that file: both are written in
  the same run.
\<close>

theorem enrich_details_on_stdout:
  assumes "enrich_command env function ctx = (Inr u, tr)"
      and "command_name ctx = ''enrich''"
  shows "\<exists>k result keys fn details narrowed opened f dest.
      function (Sublime k) (params ctx) = Inr result
    \<and> details_formatter env = Inr ([''txt'', ''enrich_details''], details)
    \<and> target (AFile f) = Inr dest
    \<and> tr = [Construct k, Call (Sublime k) (params ctx)] @ opened @
        [Render [''txt'', ''enrich_details''] result
           (dict_get_default (params ctx) ''verbose'' (ABool False)),
         Write Stdout
           (strip nl (details result (dict_get_default (params ctx) ''verbose'' (ABool False))) @ nl),
         Render keys narrowed (dict_get_default (params ctx) ''verbose'' (ABool False)),
         Write dest
           (strip nl (fn narrowed (dict_get_default (params ctx) ''verbose'' (ABool False))) @ nl),
         Write Stdout (''Output saved to '' @ file_name f @ nl)]
    \<and> (truthy (dict_get (params ctx) ''output_file'') \<longrightarrow>
         dict_get (params ctx) ''output_file'' = AFile f \<and> opened = [])"
proof -
  from enrich_command_success [OF assms]
  obtain k result fmt keys fn details ps' opened narrowed f dest where
      a: "function (Sublime k) (params ctx) = Inr result"
    and b: "details_formatter env = Inr ([''txt'', ''enrich_details''], details)"
    and c: "default_output_file env (params ctx) fmt = (Inr ps', opened)"
    and d: "dict_get ps' ''output_file'' = AFile f"
    and e: "target (AFile f) = Inr dest"
    and tr: "tr = [Construct k, Call (Sublime k) (params ctx)] @ opened @
        [Render [''txt'', ''enrich_details''] result
           (dict_get_default (params ctx) ''verbose'' (ABool False)),
         Write Stdout
           (strip nl (details result (dict_get_default (params ctx) ''verbose'' (ABool False))) @ nl),
         Render keys narrowed (dict_get_default (params ctx) ''verbose'' (ABool False)),
         Write dest
           (strip nl (fn narrowed (dict_get_default (params ctx) ''verbose'' (ABool False))) @ nl),
         Write Stdout (''Output saved to '' @ file_name f @ nl)]"
    by auto
  have "truthy (dict_get (params ctx) ''output_file'') \<longrightarrow>
         dict_get (params ctx) ''output_file'' = AFile f \<and> opened = []"
    using explicit_output_file [OF c] d by auto
  with a b e tr show ?thesis by blast
qed

theorem enrich_details_on_stdout_witness:
  "enrich_command example_env returns_result enrich_with_output =
     (Inr (),
      [Construct (AStr ''key''),
       Call (Sublime (AStr ''key'')) (params enrich_with_output),
       Render [''txt'', ''enrich_details''] example_result (ABool False),
       Write Stdout (''details message_data_model details'' @ nl),
       Render [''json''] (PDict [(''subject'', PStr ''hello'')]) (ABool False),
       Write (ToFile ''out.json'') (''json subject'' @ nl),
       Write Stdout (''Output saved to out.json'' @ nl)])
   \<and> command_name enrich_with_output = ''enrich''
   \<and> (\<exists>k result keys fn details narrowed opened f dest.
      returns_result (Sublime k) (params enrich_with_output) = Inr result
    \<and> details_formatter example_env = Inr ([''txt'', ''enrich_details''], details)
    \<and> target (AFile f) = Inr dest
    \<and> [Construct (AStr ''key''),
       Call (Sublime (AStr ''key'')) (params enrich_with_output),
       Render [''txt'', ''enrich_details''] example_result (ABool False),
       Write Stdout (''details message_data_model details'' @ nl),
       Render [''json''] (PDict [(''subject'', PStr ''hello'')]) (ABool False),
       Write (ToFile ''out.json'') (''json subject'' @ nl),
       Write Stdout (''Output saved to out.json'' @ nl)]
      = [Construct k, Call (Sublime k) (params enrich_with_output)] @ opened @
        [Render [''txt'', ''enrich_details''] result
           (dict_get_default (params enrich_with_output) ''verbose'' (ABool False)),
         Write Stdout
           (strip nl (details result
              (dict_get_default (params enrich_with_output) ''verbose'' (ABool False))) @ nl),
         Render keys narrowed
           (dict_get_default (params enrich_with_output) ''verbose'' (ABool False)),
         Write dest
           (strip nl (fn narrowed
              (dict_get_default (params enrich_with_output) ''verbose'' (ABool False))) @ nl),
         Write Stdout (''Output saved to '' @ file_name f @ nl)]
    \<and> (truthy (dict_get (params enrich_with_output) ''output_file'') \<longrightarrow>
         dict_get (params enrich_with_output) ''output_file'' = AFile f \<and> opened = []))"
proof -
  have name: "command_name enrich_with_output = ''enrich''"
    by (simp add: enrich_with_output_def example_ctx_def)
  from enrich_with_output_run name enrich_details_on_stdout [OF enrich_with_output_run name]
  show ?thesis by (intro conjI)
qed

lemma rendered_append: "rendered (xs @ ys) = rendered xs @ rendered ys"
  by (induction xs rule: rendered.induct) simp_all

text \<open>
  C6. In a run of the enrich command that returns, the formatters are called exactly twice:
  the details formatter with the full result of the subcommand, and, after the details have
  been written to standard output, the formatter of the output format with the value of
  \<^verbatim>\<open>result["message_data_model"]\<close>, which is not the full result. The narrowing comes
  after the details are written: when it fails, they have been written already.
\<close>

theorem enrich_narrowed_after_details:
  "(enrich_command env function ctx = (Inr u, tr) \<and> command_name ctx = ''enrich'' \<longrightarrow>
      (\<exists>k result fmt keys fn details narrowed before after.
         function (Sublime k) (params ctx) = Inr result
       \<and> details_formatter env = Inr ([''txt'', ''enrich_details''], details)
       \<and> subscript (params ctx) ''output_format'' = Inr fmt
       \<and> resolve_formatter env fmt ''enrich'' = Inr (keys, fn)
       \<and> getitem result ''message_data_model'' = Inr narrowed
       \<and> narrowed \<noteq> result
       \<and> tr = before @
           [Render [''txt'', ''enrich_details''] result
              (dict_get_default (params ctx) ''verbose'' (ABool False)),
            Write Stdout
              (strip nl (details result
                 (dict_get_default (params ctx) ''verbose'' (ABool False))) @ nl),
            Render keys narrowed (dict_get_default (params ctx) ''verbose'' (ABool False))]
           @ after
       \<and> rendered tr = [([''txt'', ''enrich_details''], result), (keys, narrowed)]))
   \<and> (default_output_file env ps output_format = (Inr ps', opened)
        \<and> details_formatter env = Inr (details_keys, details_fn)
        \<and> getitem full ''message_data_model'' = Inl e \<longrightarrow>
      enrich_block env ps output_format full =
        (Inl e, opened @
           [Render details_keys full (dict_get_default ps' ''verbose'' (ABool False)),
            Write Stdout
              (strip nl (details_fn full (dict_get_default ps' ''verbose'' (ABool False))) @ nl)]))"
proof (intro conjI impI)
  assume run: "enrich_command env function ctx = (Inr u, tr) \<and> command_name ctx = ''enrich''"
  let ?v = "dict_get_default (params ctx) ''verbose'' (ABool False)"
  from run enrich_command_success [of env "function" ctx u tr]
  obtain k result fmt keys fn details ps' opened narrowed f dest where
      a: "function (Sublime k) (params ctx) = Inr result"
    and b: "details_formatter env = Inr ([''txt'', ''enrich_details''], details)"
    and c: "subscript (params ctx) ''output_format'' = Inr fmt"
    and d: "resolve_formatter env fmt ''enrich'' = Inr (keys, fn)"
    and g: "getitem result ''message_data_model'' = Inr narrowed"
    and o: "default_output_file env (params ctx) fmt = (Inr ps', opened)"
    and tr: "tr = [Construct k, Call (Sublime k) (params ctx)] @ opened @
        [Render [''txt'', ''enrich_details''] result ?v,
         Write Stdout (strip nl (details result ?v) @ nl),
         Render keys narrowed ?v,
         Write dest (strip nl (fn narrowed ?v) @ nl),
         Write Stdout (''Output saved to '' @ file_name f @ nl)]"
    by auto
  have neq: "narrowed \<noteq> result"
    using g by (rule getitem_neq)
  have split: "tr = ([Construct k, Call (Sublime k) (params ctx)] @ opened) @
        [Render [''txt'', ''enrich_details''] result ?v,
         Write Stdout (strip nl (details result ?v) @ nl),
         Render keys narrowed ?v]
        @ [Write dest (strip nl (fn narrowed ?v) @ nl),
           Write Stdout (''Output saved to '' @ file_name f @ nl)]"
    using tr by simp
  have "rendered opened = []"
    using opened_events [OF o] by auto
  then have r: "rendered tr = [([''txt'', ''enrich_details''], result), (keys, narrowed)]"
    using tr by (simp add: rendered_append)
  from a b c d g neq split r
  show "\<exists>k result fmt keys fn details narrowed before after.
         function (Sublime k) (params ctx) = Inr result
       \<and> details_formatter env = Inr ([''txt'', ''enrich_details''], details)
       \<and> subscript (params ctx) ''output_format'' = Inr fmt
       \<and> resolve_formatter env fmt ''enrich'' = Inr (keys, fn)
       \<and> getitem result ''message_data_model'' = Inr narrowed
       \<and> narrowed \<noteq> result
       \<and> tr = before @
           [Render [''txt'', ''enrich_details''] result ?v,
            Write Stdout (strip nl (details result ?v) @ nl),
            Render keys narrowed ?v]
           @ after
       \<and> rendered tr = [([''txt'', ''enrich_details''], result), (keys, narrowed)]"
    by blast
next
  assume "default_output_file env ps output_format = (Inr ps', opened)
        \<and> details_formatter env = Inr (details_keys, details_fn)
        \<and> getitem full ''message_data_model'' = Inl e"
  then show "enrich_block env ps output_format full =
        (Inl e, opened @
           [Render details_keys full (dict_get_default ps' ''verbose'' (ABool False)),
            Write Stdout
              (strip nl (details_fn full (dict_get_default ps' ''verbose'' (ABool False))) @ nl)])"
    by (simp add: enrich_block_narrowing_fails)
qed

theorem enrich_narrowed_after_details_witness:
  "rendered (snd (enrich_command example_env returns_result enrich_with_output)) =
     [([''txt'', ''enrich_details''], example_result),
      ([''json''], PDict [(''subject'', PStr ''hello'')])]
   \<and> enrich_block example_env (params enrich_with_output) (AStr ''json'')
        (PDict [(''details'', PStr ''d'')]) =
       (Inl KeyError,
        [Render [''txt'', ''enrich_details''] (PDict [(''details'', PStr ''d'')]) (ABool False),
         Write Stdout (''details details'' @ nl)])"
proof -
  let ?tr = "snd (enrich_command example_env returns_result enrich_with_output)"
  have run: "enrich_command example_env returns_result enrich_with_output = (Inr (), ?tr)"
    by (simp add: enrich_with_output_run)
  have name: "command_name enrich_with_output = ''enrich''"
    by (simp add: enrich_with_output_def example_ctx_def)
  from enrich_narrowed_after_details [of example_env returns_result enrich_with_output "()" ?tr]
    run name
  obtain k result fmt keys fn narrowed where
      a: "returns_result (Sublime k) (params enrich_with_output) = Inr result"
    and c: "subscript (params enrich_with_output) ''output_format'' = Inr fmt"
    and d: "resolve_formatter example_env fmt ''enrich'' = Inr (keys, fn)"
    and g: "getitem result ''message_data_model'' = Inr narrowed"
    and r: "rendered ?tr = [([''txt'', ''enrich_details''], result), (keys, narrowed)]"
    by blast
  from a have result: "result = example_result"
    by (simp add: returns_result_def)
  with g have narrowed: "narrowed = PDict [(''subject'', PStr ''hello'')]"
    by (simp add: example_result_def subscript_def)
  from c have "fmt = AStr ''json''"
    by (simp add: enrich_with_output_def example_ctx_def enrich_params_def subscript_def)
  with d have keys: "keys = [''json'']"
    by (simp add: resolve_formatter_def example_env_def)
  have first: "rendered ?tr =
     [([''txt'', ''enrich_details''], example_result),
      ([''json''], PDict [(''subject'', PStr ''hello'')])]"
    using r result narrowed keys by simp
  have o: "default_output_file example_env (params enrich_with_output) (AStr ''json'') =
      (Inr (params enrich_with_output), [])"
    by (simp add: default_output_file_def enrich_with_output_def example_ctx_def
        enrich_params_def dict_get_def ok_def)
  have f: "details_formatter example_env =
      Inr ([''txt'', ''enrich_details''], example_formatter ''details'')"
    by (simp add: details_formatter_def example_env_def)
  have m: "getitem (PDict [(''details'', PStr ''d'')]) ''message_data_model'' = Inl KeyError"
    by (simp add: subscript_def)
  have v: "dict_get_default (params enrich_with_output) ''verbose'' (ABool False) = ABool False"
    by (simp add: enrich_with_output_def example_ctx_def enrich_params_def dict_get_default_def)
  have s: "strip nl (example_formatter ''details'' (PDict [(''details'', PStr ''d'')]) (ABool False))
      = ''details details''"
    by (simp add: example_formatter_def strip_def nl_def)
  from enrich_narrowed_after_details [of example_env returns_result enrich_with_output "()" ?tr
      "params enrich_with_output" "AStr ''json''" "params enrich_with_output" "[]"
      "[''txt'', ''enrich_details'']" "example_formatter ''details''"
      "PDict [(''details'', PStr ''d'')]" KeyError] o f m
  have "enrich_block example_env (params enrich_with_output) (AStr ''json'')
        (PDict [(''details'', PStr ''d'')]) =
       (Inl KeyError, [] @
        [Render [''txt'', ''enrich_details''] (PDict [(''details'', PStr ''d'')])
           (dict_get_default (params enrich_with_output) ''verbose'' (ABool False)),
         Write Stdout
           (strip nl (example_formatter ''details'' (PDict [(''details'', PStr ''d'')])
              (dict_get_default (params enrich_with_output) ''verbose'' (ABool False))) @ nl)])"
    by blast
  then have second: "enrich_block example_env (params enrich_with_output) (AStr ''json'')
        (PDict [(''details'', PStr ''d'')]) =
       (Inl KeyError,
        [Render [''txt'', ''enrich_details''] (PDict [(''details'', PStr ''d'')]) (ABool False),
         Write Stdout (''details details'' @ nl)])"
    by (simp only: v s append_Nil)
  from first second show ?thesis by (intro conjI)
qed

section \<open>The text that is written\<close>

lemma strip_decomp:
  "\<exists>a b. s = a @ strip cs s @ b \<and> set a \<subseteq> set cs \<and> set b \<subseteq> set cs"
proof -
  let ?P = "\<lambda>c. c \<in> set cs"
  let ?t = "dropWhile ?P s"
  have "s = takeWhile ?P s @ ?t" by simp
  moreover have "rev ?t = takeWhile ?P (rev ?t) @ dropWhile ?P (rev ?t)" by simp
  then have "rev (rev ?t) = rev (takeWhile ?P (rev ?t) @ dropWhile ?P (rev ?t))" by simp
  then have "?t = rev (dropWhile ?P (rev ?t)) @ rev (takeWhile ?P (rev ?t))"
    by (simp only: rev_rev_ident rev_append)
  ultimately have "s = takeWhile ?P s @ strip cs s @ rev (takeWhile ?P (rev ?t))"
    by (simp add: strip_def)
  moreover have "set (takeWhile ?P s) \<subseteq> set cs"
    by (auto dest: set_takeWhileD)
  moreover have "set (rev (takeWhile ?P (rev ?t))) \<subseteq> set cs"
    by (auto dest: set_takeWhileD)
  ultimately show ?thesis by blast
qed

lemma rstrip_last: "rstrip cs s = [] \<or> last (rstrip cs s) \<notin> set cs"
proof (cases "dropWhile (\<lambda>c. c \<in> set cs) (rev s)")
  case Nil
  then show ?thesis by (simp add: rstrip_def)
next
  case (Cons x xs)
  then have "\<not> x \<in> set cs" using hd_dropWhile [of "\<lambda>c. c \<in> set cs" "rev s"] by simp
  with Cons show ?thesis by (simp add: rstrip_def)
qed

lemma strip_rstrip: "strip cs s = rstrip cs (dropWhile (\<lambda>c. c \<in> set cs) s)"
  by (simp add: strip_def rstrip_def)

lemma rstrip_hd:
  "s \<noteq> [] \<Longrightarrow> hd s \<notin> set cs \<Longrightarrow> rstrip cs s \<noteq> [] \<and> hd (rstrip cs s) = hd s"
proof (induction s rule: rev_induct)
  case Nil
  then show ?case by simp
next
  case (snoc x xs)
  show ?case
  proof (cases "xs = []")
    case True
    with snoc.prems show ?thesis by (simp add: rstrip_def)
  next
    case False
    with snoc show ?thesis by (auto simp: rstrip_def)
  qed
qed

lemma strip_ends:
  "strip cs s = [] \<or> (hd (strip cs s) \<notin> set cs \<and> last (strip cs s) \<notin> set cs)"
proof (cases "dropWhile (\<lambda>c. c \<in> set cs) s")
  case Nil
  show ?thesis unfolding strip_def Nil by simp
next
  case (Cons x xs)
  then have "x \<notin> set cs" using hd_dropWhile [of "\<lambda>c. c \<in> set cs" s] by simp
  with Cons rstrip_hd [of "x # xs" cs] rstrip_last [of cs "x # xs"] show ?thesis
    by (auto simp: strip_rstrip)
qed

lemma strip_no_leading:
  "s = [] \<or> hd s \<notin> set cs \<Longrightarrow> strip cs s = rstrip cs s"
  by (cases s) (auto simp: strip_rstrip)

lemma query_to_stdout_run:
  "query_command example_env returns_result query_to_stdout =
     (Inr (),
      [Construct (AStr ''key''),
       Call (Sublime (AStr ''key'')) (params query_to_stdout),
       Render [''txt'', ''query''] example_result (ABool False),
       Write Stdout (''query message_data_model details'' @ nl)])"
proof -
  have call: "handle_exceptions example_env (call returns_result) (Sublime (AStr ''key''))
        (params query_to_stdout) =
      (Inr example_result, [Call (Sublime (AStr ''key'')) (params query_to_stdout)])"
    by (simp add: handle_exceptions_returns call_eq returns_result_def)
  have q: "strip nl (example_formatter ''query'' example_result (ABool False)) =
      ''query message_data_model details''"
    unfolding example_formatter_def example_result_def
    by (simp add: strip_def nl_def)
  have out: "echo_output ([''txt'', ''query''], example_formatter ''query'') (params query_to_stdout)
        example_result =
      (Inr (),
       [Render [''txt'', ''query''] example_result (ABool False),
        Write Stdout (''query message_data_model details'' @ nl)])"
    by (simp add: echo_output_def render_eq click_echo_ok bind_Inr q ok_def bind_emit
        query_to_stdout_def example_ctx_def query_params_def dict_get_def dict_get_default_def)
  have name: "command_name query_to_stdout = ''query''"
    by (simp add: query_to_stdout_def example_ctx_def)
  have fmt: "subscript (params query_to_stdout) ''output_format'' = Inr (AStr ''txt'')"
    by (simp add: query_to_stdout_def example_ctx_def query_params_def subscript_def)
  have res: "resolve_formatter example_env (AStr ''txt'') ''query'' =
      Inr ([''txt'', ''query''], example_formatter ''query'')"
    by (simp add: resolve_formatter_def example_env_def)
  have "echo_result example_env query_to_stdout (handle_exceptions example_env (call returns_result))
        (Sublime (AStr ''key'')) (params query_to_stdout) =
      (Inr (),
       [Call (Sublime (AStr ''key'')) (params query_to_stdout),
        Render [''txt'', ''query''] example_result (ABool False),
        Write Stdout (''query message_data_model details'' @ nl)])"
    by (simp add: echo_result_def call name fmt res out bind_Inr)
  moreover have "dict_get (params query_to_stdout) ''api_key'' = AStr ''key''"
    by (simp add: query_to_stdout_def example_ctx_def query_params_def dict_get_def)
  ultimately show ?thesis
    by (simp add: query_command_def pass_api_client_flag bind_emit)
qed

text \<open>
  C7, as amended. In a run of \<^verbatim>\<open>echo_result\<close> that returns, for any command, the text
  written to the output destination is the text returned by the resolved formatter with the
  newlines removed at both ends (\<^verbatim>\<open>strip("\n")\<close>), followed by one newline: the text
  returned is the text written between a run of newlines and a run of newlines, and what is
  written neither starts nor ends with a newline before the one that the echo adds. For a
  text with no leading newline, this is the text with its trailing newlines removed.
\<close>

theorem emitted_text_stripped_both_ends:
  assumes "echo_result env ctx function api_client kwargs = (Inr u, tr)"
  shows "\<exists>result tr0 fmt keys fn ps val tr1 dest text a b.
      function api_client kwargs = (Inr result, tr0)
    \<and> subscript (params ctx) ''output_format'' = Inr fmt
    \<and> resolve_formatter env fmt (command_name ctx) = Inr (keys, fn)
    \<and> (if command_name ctx = ''enrich'' then enrich_block env (params ctx) fmt result
        else ok (params ctx, result)) = (Inr (ps, val), tr1)
    \<and> target (dict_get_default ps ''output_file'' (AFile (Std ''<stdout>''))) = Inr dest
    \<and> text = fn val (dict_get_default ps ''verbose'' (ABool False))
    \<and> tr = tr0 @ tr1 @
        [Render keys val (dict_get_default ps ''verbose'' (ABool False)),
         Write dest (strip nl text @ nl)]
        @ (case dict_get ps ''output_file'' of
             AFile f \<Rightarrow> [Write Stdout (''Output saved to '' @ file_name f @ nl)]
           | _ \<Rightarrow> [])
    \<and> text = a @ strip nl text @ b \<and> set a \<subseteq> {CHR 0x0A} \<and> set b \<subseteq> {CHR 0x0A}
    \<and> (strip nl text = []
        \<or> hd (strip nl text) \<noteq> CHR 0x0A \<and> last (strip nl text) \<noteq> CHR 0x0A)
    \<and> (text = [] \<or> hd text \<noteq> CHR 0x0A \<longrightarrow> strip nl text = rstrip nl text)"
proof -
  from echo_result_success [OF assms]
  obtain result tr0 fmt keys fn ps val tr1 dest where
      run: "function api_client kwargs = (Inr result, tr0)"
      "subscript (params ctx) ''output_format'' = Inr fmt"
      "resolve_formatter env fmt (command_name ctx) = Inr (keys, fn)"
      "(if command_name ctx = ''enrich'' then enrich_block env (params ctx) fmt result
        else ok (params ctx, result)) = (Inr (ps, val), tr1)"
      "target (dict_get_default ps ''output_file'' (AFile (Std ''<stdout>''))) = Inr dest"
      "tr = tr0 @ tr1 @
        [Render keys val (dict_get_default ps ''verbose'' (ABool False)),
         Write dest (strip nl (fn val (dict_get_default ps ''verbose'' (ABool False))) @ nl)]
        @ (case dict_get ps ''output_file'' of
             AFile f \<Rightarrow> [Write Stdout (''Output saved to '' @ file_name f @ nl)]
           | _ \<Rightarrow> [])"
    by auto
  define t where "t = fn val (dict_get_default ps ''verbose'' (ABool False))"
  from strip_decomp [of t nl] obtain a b where
      ab: "t = a @ strip nl t @ b" "set a \<subseteq> {CHR 0x0A}" "set b \<subseteq> {CHR 0x0A}"
    by (auto simp: nl_def)
  have ends: "strip nl t = []
        \<or> hd (strip nl t) \<noteq> CHR 0x0A \<and> last (strip nl t) \<noteq> CHR 0x0A"
    using strip_ends [of nl t] by (simp add: nl_def)
  have lead: "t = [] \<or> hd t \<noteq> CHR 0x0A \<longrightarrow> strip nl t = rstrip nl t"
    using strip_no_leading [of t nl] by (simp add: nl_def)
  from run t_def ab ends lead show ?thesis
    by blast
qed

lemma query_to_stdout_echo:
  "echo_result example_env query_to_stdout (handle_exceptions example_env (call returns_result))
        (Sublime (AStr ''key'')) (params query_to_stdout) =
      (Inr (),
       [Call (Sublime (AStr ''key'')) (params query_to_stdout),
        Render [''txt'', ''query''] example_result (ABool False),
        Write Stdout (''query message_data_model details'' @ nl)])"
proof -
  have "dict_get (params query_to_stdout) ''api_key'' = AStr ''key''"
    by (simp add: query_to_stdout_def example_ctx_def query_params_def dict_get_def)
  with query_to_stdout_run show ?thesis
    by (simp add: query_command_def pass_api_client_flag bind_emit prod_eq_iff)
qed

theorem emitted_text_stripped_both_ends_witness:
  "echo_result example_env query_to_stdout (handle_exceptions example_env (call returns_result))
        (Sublime (AStr ''key'')) (params query_to_stdout) =
      (Inr (),
       [Call (Sublime (AStr ''key'')) (params query_to_stdout),
        Render [''txt'', ''query''] example_result (ABool False),
        Write Stdout (''query message_data_model details'' @ nl)])
   \<and> (\<exists>result tr0 fmt keys fn ps val tr1 dest text a b.
      handle_exceptions example_env (call returns_result) (Sublime (AStr ''key''))
        (params query_to_stdout) = (Inr result, tr0)
    \<and> subscript (params query_to_stdout) ''output_format'' = Inr fmt
    \<and> resolve_formatter example_env fmt (command_name query_to_stdout) = Inr (keys, fn)
    \<and> (if command_name query_to_stdout = ''enrich''
        then enrich_block example_env (params query_to_stdout) fmt result
        else ok (params query_to_stdout, result)) = (Inr (ps, val), tr1)
    \<and> target (dict_get_default ps ''output_file'' (AFile (Std ''<stdout>''))) = Inr dest
    \<and> text = fn val (dict_get_default ps ''verbose'' (ABool False))
    \<and> [Call (Sublime (AStr ''key'')) (params query_to_stdout),
        Render [''txt'', ''query''] example_result (ABool False),
        Write Stdout (''query message_data_model details'' @ nl)]
      = tr0 @ tr1 @
        [Render keys val (dict_get_default ps ''verbose'' (ABool False)),
         Write dest (strip nl text @ nl)]
        @ (case dict_get ps ''output_file'' of
             AFile f \<Rightarrow> [Write Stdout (''Output saved to '' @ file_name f @ nl)]
           | _ \<Rightarrow> [])
    \<and> text = a @ strip nl text @ b \<and> set a \<subseteq> {CHR 0x0A} \<and> set b \<subseteq> {CHR 0x0A}
    \<and> (strip nl text = []
        \<or> hd (strip nl text) \<noteq> CHR 0x0A \<and> last (strip nl text) \<noteq> CHR 0x0A)
    \<and> (text = [] \<or> hd text \<noteq> CHR 0x0A \<longrightarrow> strip nl text = rstrip nl text))"
  using query_to_stdout_echo emitted_text_stripped_both_ends [OF query_to_stdout_echo]
  by (intro conjI)

text \<open>
  C7 as stated fails for a text with a leading newline: the formatter of the example returns
  the line between two newlines, and the query command writes the line without the leading
  one, which stripping the trailing newlines alone would keep.
\<close>

theorem leading_newline_stripped_counterexample:
  "written Stdout (snd (query_command example_env returns_result query_to_stdout)) =
     [''query message_data_model details'' @ nl]
   \<and> rstrip nl (example_formatter ''query'' example_result (ABool False)) @ nl =
     nl @ ''query message_data_model details'' @ nl
   \<and> written Stdout (snd (query_command example_env returns_result query_to_stdout)) \<noteq>
     [rstrip nl (example_formatter ''query'' example_result (ABool False)) @ nl]"
proof -
  have a: "written Stdout (snd (query_command example_env returns_result query_to_stdout)) =
     [''query message_data_model details'' @ nl]"
    by (simp add: query_to_stdout_run)
  have b: "rstrip nl (example_formatter ''query'' example_result (ABool False)) @ nl =
     nl @ ''query message_data_model details'' @ nl"
    by (simp add: example_formatter_def example_result_def rstrip_def nl_def)
  have "''query message_data_model details'' @ nl \<noteq> nl @ ''query message_data_model details'' @ nl"
    by (simp add: nl_def)
  with a b show ?thesis by simp
qed

section \<open>The verbosity flag\<close>

lemma verbose_args_append: "verbose_args (xs @ ys) = verbose_args xs @ verbose_args ys"
  by (induction xs rule: verbose_args.induct) simp_all

lemma verbose_bind:
  assumes "set (verbose_args (snd m)) \<subseteq> V"
      and "\<And>x tr. m = (Inr x, tr) \<Longrightarrow> set (verbose_args (snd (f x))) \<subseteq> V"
  shows "set (verbose_args (snd (bind m f))) \<subseteq> V"
proof (cases m)
  case (Pair r tr)
  show ?thesis
  proof (cases r)
    case (Inl e)
    with Pair assms(1) show ?thesis by simp
  next
    case (Inr x)
    with Pair assms(1) assms(2) [of x tr] show ?thesis
      by (simp add: bind_Inr verbose_args_append)
  qed
qed

lemma verbose_catch:
  assumes "set (verbose_args (snd m)) \<subseteq> V"
      and "\<And>e tr. m = (Inl e, tr) \<Longrightarrow> set (verbose_args (snd (h e))) \<subseteq> V"
  shows "set (verbose_args (snd (catch m h))) \<subseteq> V"
proof (cases m)
  case (Pair r tr)
  show ?thesis
  proof (cases r)
    case (Inr x)
    with Pair assms(1) show ?thesis by (simp add: catch_Inr)
  next
    case (Inl e)
    with Pair assms(1) assms(2) [of e tr] show ?thesis
      by (cases "h e") (simp add: catch_def verbose_args_append)
  qed
qed

lemma verbose_if:
  assumes "c \<Longrightarrow> set (verbose_args (snd a)) \<subseteq> V"
      and "\<not> c \<Longrightarrow> set (verbose_args (snd b)) \<subseteq> V"
  shows "set (verbose_args (snd (if c then a else b))) \<subseteq> V"
  using assms by simp

lemma verbose_lift: "set (verbose_args (snd (lift r))) \<subseteq> V"
  by (simp add: lift_def)

lemma verbose_ok: "set (verbose_args (snd (ok x))) \<subseteq> V"
  by (simp add: ok_def)

lemma verbose_raise: "set (verbose_args (snd (raise e))) \<subseteq> V"
  by (simp add: raise_def)

lemma verbose_log: "set (verbose_args (snd (emit (LogError line)))) \<subseteq> V"
  by (simp add: emit_def)

lemma verbose_construct: "set (verbose_args (snd (emit (Construct k)))) \<subseteq> V"
  by (simp add: emit_def)

lemma verbose_click_echo: "set (verbose_args (snd (click_echo message file))) \<subseteq> V"
  by (cases "target file") (simp_all add: click_echo_def raise_def emit_def)

lemma verbose_click_open_file: "set (verbose_args (snd (click_open_file env name mode))) \<subseteq> V"
  by (simp add: click_open_file_def ok_def raise_def bind_emit split: option.splits)

lemma verbose_render: "set (verbose_args (snd (render formatter result v))) \<subseteq> {v}"
  by (simp add: render_eq)

lemma verbose_call: "set (verbose_args (snd (call function api_client kwargs))) \<subseteq> V"
  by (simp add: call_eq)

lemmas verbose_silent = verbose_lift verbose_ok verbose_raise verbose_log verbose_construct
  verbose_click_echo verbose_click_open_file verbose_call

lemma no_verbose_default:
  "map_of ps ''verbose'' = None \<Longrightarrow> dict_get_default ps ''verbose'' (ABool False) = ABool False"
  by (simp add: dict_get_default_def)

lemma verbose_handle_exceptions:
  assumes "set (verbose_args (snd (function api_client kwargs))) \<subseteq> V"
  shows "set (verbose_args (snd (handle_exceptions env function api_client kwargs))) \<subseteq> V"
  unfolding handle_exceptions_def
  by (intro verbose_catch verbose_if verbose_bind verbose_silent assms)

lemma verbose_analyze_wrapper:
  "set (verbose_args (snd (analyze_wrapper env function api_client kwargs))) \<subseteq> V"
  unfolding analyze_wrapper_def
  by (intro verbose_catch verbose_if verbose_bind verbose_silent)

lemma verbose_default_output_file:
  "set (verbose_args (snd (default_output_file env ps fmt))) \<subseteq> V"
  unfolding default_output_file_def
  by (intro verbose_if verbose_bind verbose_silent)

lemma default_output_file_keeps_verbose:
  assumes "default_output_file env ps fmt = (Inr ps', opened)"
  shows "map_of ps' ''verbose'' = map_of ps ''verbose''"
  using default_output_file_success [OF assms] by (auto simp: update_conv')

lemma verbose_enrich_block:
  assumes "map_of ps ''verbose'' = None"
  shows "set (verbose_args (snd (enrich_block env ps fmt result))) \<subseteq> {ABool False}"
  unfolding enrich_block_def
proof (rule verbose_bind)
  show "set (verbose_args (snd (default_output_file env ps fmt))) \<subseteq> {ABool False}"
    by (rule verbose_default_output_file)
next
  fix ps' tr
  assume "default_output_file env ps fmt = (Inr ps', tr)"
  then have "map_of ps' ''verbose'' = None"
    using assms by (simp add: default_output_file_keeps_verbose)
  then have v: "dict_get_default ps' ''verbose'' (ABool False) = ABool False"
    by (rule no_verbose_default)
  show "set (verbose_args (snd (bind (lift (details_formatter env)) (\<lambda>details.
     bind (render details result (dict_get_default ps' ''verbose'' (ABool False))) (\<lambda>text.
     bind (click_echo (strip nl text) (AFile (Std ''<stdout>''))) (\<lambda>_.
     bind (lift (getitem result ''message_data_model'')) (\<lambda>result.
     ok (ps', result)))))))) \<subseteq> {ABool False}"
    unfolding v by (intro verbose_bind verbose_silent verbose_render)
qed

lemma enrich_block_keeps_verbose:
  assumes "enrich_block env ps fmt result = (Inr (ps', narrowed), tr)"
  shows "map_of ps' ''verbose'' = map_of ps ''verbose''"
proof -
  from enrich_block_success [OF assms] obtain opened where
    "default_output_file env ps fmt = (Inr ps', opened)" by blast
  then show ?thesis by (rule default_output_file_keeps_verbose)
qed

lemma verbose_echo_output:
  assumes "map_of ps ''verbose'' = None"
  shows "set (verbose_args (snd (echo_output formatter ps result))) \<subseteq> {ABool False}"
  unfolding echo_output_def no_verbose_default [OF assms] Let_def
  by (intro verbose_if verbose_bind verbose_silent verbose_render)

lemma verbose_echo_result:
  assumes "map_of (params ctx) ''verbose'' = None"
      and "set (verbose_args (snd (function api_client kwargs))) \<subseteq> {ABool False}"
  shows "set (verbose_args (snd (echo_result env ctx function api_client kwargs))) \<subseteq> {ABool False}"
  unfolding echo_result_def
proof (intro verbose_bind verbose_if verbose_silent assms(2))
  fix fmt result
  assume "command_name ctx = ''enrich''"
  show "set (verbose_args (snd (enrich_block env (params ctx) fmt result))) \<subseteq> {ABool False}"
    using assms(1) by (rule verbose_enrich_block)
next
  fix result fmt formatter x tr
  assume "(if command_name ctx = ''enrich''
          then enrich_block env (params ctx) fmt result
          else ok (params ctx, result)) = (Inr x, tr)"
  then have "map_of (fst x) ''verbose'' = None"
    using assms(1) enrich_block_keeps_verbose [of env "params ctx" fmt result "fst x" "snd x" tr]
    by (auto simp: ok_eq split: if_splits)
  then show "set (verbose_args (snd (case x of (ps, result) \<Rightarrow> echo_output formatter ps result)))
      \<subseteq> {ABool False}"
    by (cases x) (simp add: verbose_echo_output)
qed

lemma verbose_pass_api_client:
  assumes "\<And>api_client. set (verbose_args (snd (function api_client kwargs))) \<subseteq> V"
  shows "set (verbose_args (snd (pass_api_client env ctx function kwargs))) \<subseteq> V"
  unfolding pass_api_client_def Let_def
  by (intro verbose_if verbose_bind verbose_silent assms)

text \<open>
  C10. None of the enrich, analyze and query commands declares an option named
  \<^verbatim>\<open>verbose\<close>, so \<^verbatim>\<open>params.get("verbose", False)\<close> is \<^verbatim>\<open>False\<close>, also after the
  enrich block has stored the output file in the parameters. In every run of the three
  commands, whether it returns or not, each call of a formatter (the details formatter of
  enrich included) is given \<^verbatim>\<open>False\<close> as its verbosity flag.
\<close>

theorem formatters_never_verbose:
  "(params ctx = enrich_params api_key input_file output_file output_format \<longrightarrow>
      set (verbose_args (snd (enrich_command env function ctx))) \<subseteq> {ABool False})
   \<and> (params ctx =
         analyze_params api_key input_file detections_file detection_str output_file output_format
       \<longrightarrow> set (verbose_args (snd (analyze_command env function ctx))) \<subseteq> {ABool False})
   \<and> (params ctx = query_params api_key input_file query output_file output_format \<longrightarrow>
      set (verbose_args (snd (query_command env function ctx))) \<subseteq> {ABool False})
   \<and> map_of (enrich_params api_key input_file output_file output_format) ''verbose'' = None
   \<and> map_of (analyze_params api_key input_file detections_file detection_str output_file
         output_format) ''verbose'' = None
   \<and> map_of (query_params api_key input_file query output_file output_format) ''verbose'' = None
   \<and> (map_of (params ctx) ''verbose'' = None \<longrightarrow>
        dict_get_default (params ctx) ''verbose'' (ABool False) = ABool False)"
proof (intro conjI impI)
  assume "params ctx = enrich_params api_key input_file output_file output_format"
  then have "map_of (params ctx) ''verbose'' = None"
    by (simp add: enrich_params_def)
  then show "set (verbose_args (snd (enrich_command env function ctx))) \<subseteq> {ABool False}"
    unfolding enrich_command_def
    by (intro verbose_pass_api_client verbose_echo_result verbose_handle_exceptions verbose_call)
next
  assume "params ctx =
     analyze_params api_key input_file detections_file detection_str output_file output_format"
  then have "map_of (params ctx) ''verbose'' = None"
    by (simp add: analyze_params_def)
  then show "set (verbose_args (snd (analyze_command env function ctx))) \<subseteq> {ABool False}"
    unfolding analyze_command_def
    by (intro verbose_pass_api_client verbose_echo_result verbose_handle_exceptions
        verbose_analyze_wrapper)
next
  assume "params ctx = query_params api_key input_file query output_file output_format"
  then have "map_of (params ctx) ''verbose'' = None"
    by (simp add: query_params_def)
  then show "set (verbose_args (snd (query_command env function ctx))) \<subseteq> {ABool False}"
    unfolding query_command_def
    by (intro verbose_pass_api_client verbose_echo_result verbose_handle_exceptions verbose_call)
next
  show "map_of (enrich_params api_key input_file output_file output_format) ''verbose'' = None"
    by (simp add: enrich_params_def)
next
  show "map_of (analyze_params api_key input_file detections_file detection_str output_file
         output_format) ''verbose'' = None"
    by (simp add: analyze_params_def)
next
  show "map_of (query_params api_key input_file query output_file output_format) ''verbose'' = None"
    by (simp add: query_params_def)
next
  assume "map_of (params ctx) ''verbose'' = None"
  then show "dict_get_default (params ctx) ''verbose'' (ABool False) = ABool False"
    by (rule no_verbose_default)
qed

theorem formatters_never_verbose_witness:
  "set (verbose_args (snd (enrich_command example_env returns_result enrich_with_output)))
     \<subseteq> {ABool False}
   \<and> verbose_args (snd (enrich_command example_env returns_result enrich_with_output))
     = [ABool False, ABool False]
   \<and> set (verbose_args (snd (analyze_command (example_env\<lparr>open_error := opens_all\<rparr>)
        returns_result
        (example_ctx ''analyze''
           (analyze_params (AStr ''key'') (File ''report.eml'') ANone ANone ANone ''txt'')))))
     \<subseteq> {ABool False}
   \<and> set (verbose_args (snd (query_command example_env returns_result query_to_stdout)))
     \<subseteq> {ABool False}
   \<and> verbose_args (snd (query_command example_env returns_result query_to_stdout))
     = [ABool False]"
proof -
  let ?actx = "example_ctx ''analyze''
           (analyze_params (AStr ''key'') (File ''report.eml'') ANone ANone ANone ''txt'')"
  have e: "params enrich_with_output =
      enrich_params (AStr ''key'') (File ''report.eml'') (AFile (File ''out.json'')) ''json''"
    by (simp add: enrich_with_output_def example_ctx_def)
  have a: "params ?actx =
      analyze_params (AStr ''key'') (File ''report.eml'') ANone ANone ANone ''txt''"
    by (simp add: example_ctx_def)
  have q: "params query_to_stdout =
      query_params (AStr ''key'') (File ''report.mdm'') ''q'' ANone ''txt''"
    by (simp add: query_to_stdout_def example_ctx_def)
  from e formatters_never_verbose [of enrich_with_output "AStr ''key''" "File ''report.eml''"
      "AFile (File ''out.json'')" "''json''" example_env returns_result]
  have 1: "set (verbose_args (snd (enrich_command example_env returns_result enrich_with_output)))
     \<subseteq> {ABool False}"
    by blast
  from a formatters_never_verbose [of ?actx "AStr ''key''" "File ''report.eml''"
      ANone "''txt''" "example_env\<lparr>open_error := opens_all\<rparr>" returns_result ANone ANone]
  have 2: "set (verbose_args (snd (analyze_command (example_env\<lparr>open_error := opens_all\<rparr>)
        returns_result ?actx))) \<subseteq> {ABool False}"
    by blast
  from q formatters_never_verbose [of query_to_stdout "AStr ''key''" "File ''report.mdm''"
      ANone "''txt''" example_env returns_result ANone ANone "''q''"]
  have 3: "set (verbose_args (snd (query_command example_env returns_result query_to_stdout)))
     \<subseteq> {ABool False}"
    by blast
  have 4: "verbose_args (snd (enrich_command example_env returns_result enrich_with_output))
     = [ABool False, ABool False]"
    by (simp add: enrich_with_output_run)
  have 5: "verbose_args (snd (query_command example_env returns_result query_to_stdout))
     = [ABool False]"
    by (simp add: query_to_stdout_run)
  from 1 2 3 4 5 show ?thesis by (intro conjI)
qed

section \<open>The name of the default output file\<close>

lemma rfind_ge: "-1 \<le> rfind p c"
  by (induction p) (auto simp: Let_def)

lemma rfind_lt: "rfind p c < int (length p)"
  by (induction p) (auto simp: Let_def)

lemma rfind_drop:
  "rfind (drop n p) c = (if int n \<le> rfind p c then rfind p c - int n else -1)"
proof (induction p arbitrary: n)
  case Nil
  then show ?case by simp
next
  case (Cons x xs)
  show ?case
  proof (cases n)
    case 0
    with rfind_ge [of "x # xs" c] show ?thesis by simp
  next
    case (Suc m)
    with Cons [of m] rfind_ge [of xs c] show ?thesis
      by (auto simp: Let_def)
  qed
qed

lemma rfind_take:
  "rfind p c < int n \<Longrightarrow> rfind (take n p) c = rfind p c"
proof (induction p arbitrary: n)
  case Nil
  then show ?case by simp
next
  case (Cons x xs)
  show ?case
  proof (cases n)
    case 0
    with Cons.prems rfind_ge [of "x # xs" c] show ?thesis by simp
  next
    case (Suc m)
    with Cons.prems Cons.IH [of m] rfind_ge [of xs c] show ?thesis
      by (auto simp: Let_def split: if_splits)
  qed
qed

lemma non_dot_before_drop:
  "0 \<le> i \<Longrightarrow>
   non_dot_before (drop k p) i d = non_dot_before p (i + int k) (d + int k)"
proof (induction "drop k p" i d rule: non_dot_before.induct)
  case (1 i d)
  have eq: "drop (nat i) (drop k p) = drop (nat (i + int k)) p"
    using 1(2) by (simp add: nat_add_distrib add.commute)
  show ?case
  proof (cases "i < d")
    case False
    then show ?thesis
      by (simp add: non_dot_before.simps [of "drop k p" i d]
          non_dot_before.simps [of p "i + int k" "d + int k"])
  next
    case True
    show ?thesis
    proof (cases "take 1 (drop (nat i) (drop k p)) \<noteq> ''.''")
      case t: True
      with True eq show ?thesis
        by (simp add: non_dot_before.simps [of "drop k p" i d]
            non_dot_before.simps [of p "i + int k" "d + int k"])
    next
      case False
      with True 1(1) 1(2) have "non_dot_before (drop k p) (i + 1) d =
          non_dot_before p (i + 1 + int k) (d + int k)"
        by simp
      with True False eq show ?thesis
        by (simp add: non_dot_before.simps [of "drop k p" i d]
            non_dot_before.simps [of p "i + int k" "d + int k"] add.commute add.left_commute)
    qed
  qed
qed

lemma basename_splitext:
  "basename (fst (splitext p)) = fst (splitext (basename p))"
proof -
  define sep where "sep = rfind p CHR ''/''"
  define dot where "dot = rfind p CHR ''.''"
  have sep: "-1 \<le> sep" unfolding sep_def by (rule rfind_ge)
  define q where "q = drop (nat (sep + 1)) p"
  have q: "basename p = q"
    by (simp add: basename_def sep_def q_def Let_def)
  have qsep: "rfind q CHR ''/'' = -1"
    using sep by (simp add: q_def rfind_drop sep_def [symmetric])
  have qdot: "rfind q CHR ''.'' = (if sep < dot then dot - (sep + 1) else -1)"
    using sep by (auto simp: q_def rfind_drop dot_def [symmetric])
  have shift: "non_dot_before q 0 (dot - (sep + 1)) = non_dot_before p (sep + 1) dot"
    using sep non_dot_before_drop [of 0 "nat (sep + 1)" p "dot - (sep + 1)"]
    by (simp add: q_def)
  show ?thesis
  proof (cases "sep < dot \<and> non_dot_before p (sep + 1) dot")
    case True
    then have l: "fst (splitext p) = take (nat dot) p"
      by (simp add: splitext_def sep_def dot_def Let_def)
    have "rfind (take (nat dot) p) CHR ''/'' = sep"
      using True sep unfolding sep_def by (intro rfind_take) simp
    then have "basename (fst (splitext p)) = drop (nat (sep + 1)) (take (nat dot) p)"
      by (simp add: l basename_def Let_def)
    moreover have "fst (splitext q) = take (nat (dot - (sep + 1))) q"
      using True shift sep by (simp add: splitext_def qsep qdot Let_def)
    moreover have "drop (nat (sep + 1)) (take (nat dot) p) = take (nat (dot - (sep + 1))) q"
      using True sep by (simp add: q_def drop_take nat_diff_distrib)
    ultimately show ?thesis by (simp add: q)
  next
    case False
    then have "fst (splitext p) = p"
      by (auto simp: splitext_def sep_def dot_def Let_def)
    moreover from False shift have "fst (splitext q) = q"
      by (auto simp: splitext_def qsep qdot Let_def)
    ultimately show ?thesis by (simp add: q)
  qed
qed

lemma output_file_name_not_dash:
  "fmt = AStr ''json'' \<or> fmt = AStr ''txt'' \<Longrightarrow> output_file_name name fmt \<noteq> ''-''"
  by (auto simp: output_file_name_def Let_def)

lemma report_eml:
  "output_file_name ''report.eml'' (AStr ''json'') = ''report.mdm''"
  "output_file_name ''report.eml'' (AStr ''txt'') = ''report.txt''"
  "output_file_name ''mail/in.box/report.eml'' (AStr ''json'') = ''report.mdm''"
  by (simp_all add: output_file_name_def splitext_def basename_def Let_def
      non_dot_before.simps)

lemma subscript_dict_get: "subscript d k = Inr v \<Longrightarrow> dict_get d k = v"
  by (simp add: subscript_def dict_get_def split: option.splits)

lemma enrich_command_default_output:
  assumes "enrich_command env function ctx = (Inr u, tr)"
      and "command_name ctx = ''enrich''"
      and "\<not> truthy (dict_get (params ctx) ''output_file'')"
      and "dict_get (params ctx) ''output_format'' = AStr ''json''
           \<or> dict_get (params ctx) ''output_format'' = AStr ''txt''"
  shows "\<exists>k input rest text.
      dict_get (params ctx) ''input_file'' = AFile input
    \<and> tr = [Construct k, Call (Sublime k) (params ctx),
            OpenFile (output_file_name (file_name input) (dict_get (params ctx) ''output_format''))
              ''w''] @ rest
    \<and> Write (ToFile (output_file_name (file_name input) (dict_get (params ctx) ''output_format'')))
         text \<in> set rest
    \<and> last tr = Write Stdout (''Output saved to ''
         @ output_file_name (file_name input) (dict_get (params ctx) ''output_format'') @ nl)"
proof -
  let ?v = "dict_get_default (params ctx) ''verbose'' (ABool False)"
  from enrich_command_success [OF assms(1,2)]
  obtain k result fmt keys fn details ps' opened narrowed f dest where
      c: "subscript (params ctx) ''output_format'' = Inr fmt"
    and o: "default_output_file env (params ctx) fmt = (Inr ps', opened)"
    and d: "dict_get ps' ''output_file'' = AFile f"
    and e: "target (AFile f) = Inr dest"
    and tr: "tr = [Construct k, Call (Sublime k) (params ctx)] @ opened @
        [Render [''txt'', ''enrich_details''] result ?v,
         Write Stdout (strip nl (details result ?v) @ nl),
         Render keys narrowed ?v,
         Write dest (strip nl (fn narrowed ?v) @ nl),
         Write Stdout (''Output saved to '' @ file_name f @ nl)]"
    by auto
  from c have fmt: "dict_get (params ctx) ''output_format'' = fmt"
    by (rule subscript_dict_get)
  from default_output_file_success [OF o] assms(3)
  obtain input pf where
      i: "dict_get (params ctx) ''input_file'' = AFile input"
    and op: "click_open_file env (output_file_name (file_name input) fmt) ''w'' = (Inr pf, opened)"
    and ps': "ps' = AList.update ''output_file'' (AFile pf) (params ctx)"
    by auto
  let ?n = "output_file_name (file_name input) fmt"
  have "?n \<noteq> ''-''"
    using assms(4) fmt by (intro output_file_name_not_dash) simp
  with click_open_file_success [OF op] have pf: "pf = File ?n" "opened = [OpenFile ?n ''w'']"
    by auto
  from d ps' pf have f: "f = File ?n"
    by (simp add: dict_get_def update_conv')
  with e have dest: "dest = ToFile ?n" by simp
  have 1: "tr = [Construct k, Call (Sublime k) (params ctx), OpenFile ?n ''w''] @
        [Render [''txt'', ''enrich_details''] result ?v,
         Write Stdout (strip nl (details result ?v) @ nl),
         Render keys narrowed ?v,
         Write (ToFile ?n) (strip nl (fn narrowed ?v) @ nl),
         Write Stdout (''Output saved to '' @ ?n @ nl)]"
    using tr pf f dest by simp
  have 2: "Write (ToFile ?n) (strip nl (fn narrowed ?v) @ nl) \<in> set
        [Render [''txt'', ''enrich_details''] result ?v,
         Write Stdout (strip nl (details result ?v) @ nl),
         Render keys narrowed ?v,
         Write (ToFile ?n) (strip nl (fn narrowed ?v) @ nl),
         Write Stdout (''Output saved to '' @ ?n @ nl)]"
    by simp
  have 3: "last tr = Write Stdout (''Output saved to '' @ ?n @ nl)"
    using 1 by simp
  from i 1 2 3 show ?thesis unfolding fmt by blast
qed

text \<open>
  C4. The name of the output file that enrich opens when none is given is
  \<^verbatim>\<open>basename(splitext(name)[0])\<close> of the input file's name, plus \<^verbatim>\<open>.mdm\<close> for the
  format json and \<^verbatim>\<open>.txt\<close> for the format txt. This is the base name of the input file
  without its extension, \<^verbatim>\<open>splitext(basename(name))[0]\<close>: for \<^verbatim>\<open>report.eml\<close> the names
  are \<^verbatim>\<open>report.mdm\<close> and \<^verbatim>\<open>report.txt\<close>. A run of the enrich command without an output
  file that returns has opened the file of that name for writing, right after the call of
  the subcommand, has written to it, and names it in its last line.
\<close>

theorem enrich_output_file_name:
  "output_file_name name (AStr ''json'') = fst (splitext (basename name)) @ ''.mdm''
   \<and> output_file_name name (AStr ''txt'') = fst (splitext (basename name)) @ ''.txt''
   \<and> output_file_name ''report.eml'' (AStr ''json'') = ''report.mdm''
   \<and> output_file_name ''report.eml'' (AStr ''txt'') = ''report.txt''
   \<and> (enrich_command env function ctx = (Inr u, tr) \<and> command_name ctx = ''enrich''
        \<and> \<not> truthy (dict_get (params ctx) ''output_file'')
        \<and> (dict_get (params ctx) ''output_format'' = AStr ''json''
             \<or> dict_get (params ctx) ''output_format'' = AStr ''txt'') \<longrightarrow>
      (\<exists>k input rest text.
          dict_get (params ctx) ''input_file'' = AFile input
        \<and> tr = [Construct k, Call (Sublime k) (params ctx),
                OpenFile (output_file_name (file_name input)
                            (dict_get (params ctx) ''output_format'')) ''w''] @ rest
        \<and> Write (ToFile (output_file_name (file_name input)
                            (dict_get (params ctx) ''output_format''))) text \<in> set rest
        \<and> last tr = Write Stdout (''Output saved to ''
             @ output_file_name (file_name input) (dict_get (params ctx) ''output_format'')
             @ nl)))"
proof (intro conjI impI)
  show "output_file_name name (AStr ''json'') = fst (splitext (basename name)) @ ''.mdm''"
    by (simp add: output_file_name_def Let_def basename_splitext)
  show "output_file_name name (AStr ''txt'') = fst (splitext (basename name)) @ ''.txt''"
    by (simp add: output_file_name_def Let_def basename_splitext)
  show "output_file_name ''report.eml'' (AStr ''json'') = ''report.mdm''"
    by (rule report_eml)
  show "output_file_name ''report.eml'' (AStr ''txt'') = ''report.txt''"
    by (rule report_eml)
next
  assume "enrich_command env function ctx = (Inr u, tr) \<and> command_name ctx = ''enrich''
        \<and> \<not> truthy (dict_get (params ctx) ''output_file'')
        \<and> (dict_get (params ctx) ''output_format'' = AStr ''json''
             \<or> dict_get (params ctx) ''output_format'' = AStr ''txt'')"
  then show "\<exists>k input rest text.
          dict_get (params ctx) ''input_file'' = AFile input
        \<and> tr = [Construct k, Call (Sublime k) (params ctx),
                OpenFile (output_file_name (file_name input)
                            (dict_get (params ctx) ''output_format'')) ''w''] @ rest
        \<and> Write (ToFile (output_file_name (file_name input)
                            (dict_get (params ctx) ''output_format''))) text \<in> set rest
        \<and> last tr = Write Stdout (''Output saved to ''
             @ output_file_name (file_name input) (dict_get (params ctx) ''output_format'')
             @ nl)"
    using enrich_command_default_output [of env "function" ctx u tr] by blast
qed

lemma enrich_default_output_run:
  "enrich_command example_env returns_result enrich_default_output =
     (Inr (),
      [Construct (AStr ''key''),
       Call (Sublime (AStr ''key'')) (params enrich_default_output),
       OpenFile ''report.mdm'' ''w'',
       Render [''txt'', ''enrich_details''] example_result (ABool False),
       Write Stdout (''details message_data_model details'' @ nl),
       Render [''json''] (PDict [(''subject'', PStr ''hello'')]) (ABool False),
       Write (ToFile ''report.mdm'') (''json subject'' @ nl),
       Write Stdout (''Output saved to report.mdm'' @ nl)])"
proof -
  let ?ps = "AList.update ''output_file'' (AFile (File ''report.mdm'')) (params enrich_default_output)"
  have call: "handle_exceptions example_env (call returns_result) (Sublime (AStr ''key''))
        (params enrich_default_output) =
      (Inr example_result, [Call (Sublime (AStr ''key'')) (params enrich_default_output)])"
    by (simp add: handle_exceptions_returns call_eq returns_result_def)
  have d: "strip nl (example_formatter ''details'' example_result (ABool False)) =
      ''details message_data_model details''"
    unfolding example_formatter_def example_result_def
    by (simp add: strip_def nl_def)
  have j: "strip nl (example_formatter ''json'' (PDict [(''subject'', PStr ''hello'')]) (ABool False)) =
      ''json subject''"
    unfolding example_formatter_def
    by (simp add: strip_def nl_def)
  have g: "getitem example_result ''message_data_model'' = Inr (PDict [(''subject'', PStr ''hello'')])"
    by (simp add: example_result_def subscript_def)
  have n: "output_file_name ''mail/report.eml'' (AStr ''json'') = ''report.mdm''"
    by (simp add: output_file_name_def splitext_def basename_def Let_def non_dot_before.simps)
  have o: "default_output_file example_env (params enrich_default_output) (AStr ''json'') =
      (Inr ?ps, [OpenFile ''report.mdm'' ''w''])"
    by (simp add: default_output_file_def n click_open_file_ok bind_Inr ok_def
        enrich_default_output_def example_ctx_def enrich_params_def dict_get_def example_env_def)
  have v: "dict_get_default ?ps ''verbose'' (ABool False) = ABool False"
    by (simp add: enrich_default_output_def example_ctx_def enrich_params_def dict_get_default_def)
  have f: "details_formatter example_env =
      Inr ([''txt'', ''enrich_details''], example_formatter ''details'')"
    by (simp add: details_formatter_def example_env_def)
  have block: "enrich_block example_env (params enrich_default_output) (AStr ''json'') example_result =
      (Inr (?ps, PDict [(''subject'', PStr ''hello'')]),
       [OpenFile ''report.mdm'' ''w'',
        Render [''txt'', ''enrich_details''] example_result (ABool False),
        Write Stdout (''details message_data_model details'' @ nl)])"
    by (simp add: enrich_block_def o f v d g bind_Inr render_eq click_echo_ok ok_def)
  have out: "echo_output ([''json''], example_formatter ''json'') ?ps
        (PDict [(''subject'', PStr ''hello'')]) =
      (Inr (),
       [Render [''json''] (PDict [(''subject'', PStr ''hello'')]) (ABool False),
        Write (ToFile ''report.mdm'') (''json subject'' @ nl),
        Write Stdout (''Output saved to report.mdm'' @ nl)])"
    by (simp add: echo_output_def render_eq click_echo_ok bind_Inr j bind_emit emit_def
        enrich_default_output_def example_ctx_def enrich_params_def dict_get_def dict_get_default_def)
  have name: "command_name enrich_default_output = ''enrich''"
    by (simp add: enrich_default_output_def example_ctx_def)
  have fmt: "subscript (params enrich_default_output) ''output_format'' = Inr (AStr ''json'')"
    by (simp add: enrich_default_output_def example_ctx_def enrich_params_def subscript_def)
  have res: "resolve_formatter example_env (AStr ''json'') ''enrich'' =
      Inr ([''json''], example_formatter ''json'')"
    by (simp add: resolve_formatter_def example_env_def)
  have "echo_result example_env enrich_default_output
        (handle_exceptions example_env (call returns_result))
        (Sublime (AStr ''key'')) (params enrich_default_output) =
      (Inr (),
       [Call (Sublime (AStr ''key'')) (params enrich_default_output),
        OpenFile ''report.mdm'' ''w'',
        Render [''txt'', ''enrich_details''] example_result (ABool False),
        Write Stdout (''details message_data_model details'' @ nl),
        Render [''json''] (PDict [(''subject'', PStr ''hello'')]) (ABool False),
        Write (ToFile ''report.mdm'') (''json subject'' @ nl),
        Write Stdout (''Output saved to report.mdm'' @ nl)])"
    by (simp add: echo_result_def call name fmt res block out bind_Inr)
  moreover have "dict_get (params enrich_default_output) ''api_key'' = AStr ''key''"
    by (simp add: enrich_default_output_def example_ctx_def enrich_params_def dict_get_def)
  ultimately show ?thesis
    by (simp add: enrich_command_def pass_api_client_flag bind_emit)
qed

theorem enrich_output_file_name_witness:
  "enrich_command example_env returns_result enrich_default_output =
     (Inr (),
      [Construct (AStr ''key''),
       Call (Sublime (AStr ''key'')) (params enrich_default_output),
       OpenFile ''report.mdm'' ''w'',
       Render [''txt'', ''enrich_details''] example_result (ABool False),
       Write Stdout (''details message_data_model details'' @ nl),
       Render [''json''] (PDict [(''subject'', PStr ''hello'')]) (ABool False),
       Write (ToFile ''report.mdm'') (''json subject'' @ nl),
       Write Stdout (''Output saved to report.mdm'' @ nl)])
   \<and> output_file_name ''mail/report.eml'' (AStr ''json'') = ''report.mdm''
   \<and> fst (splitext (basename ''mail/report.eml'')) = ''report''
   \<and> (\<exists>k input rest text.
          dict_get (params enrich_default_output) ''input_file'' = AFile input
        \<and> [Construct (AStr ''key''),
           Call (Sublime (AStr ''key'')) (params enrich_default_output),
           OpenFile ''report.mdm'' ''w'',
           Render [''txt'', ''enrich_details''] example_result (ABool False),
           Write Stdout (''details message_data_model details'' @ nl),
           Render [''json''] (PDict [(''subject'', PStr ''hello'')]) (ABool False),
           Write (ToFile ''report.mdm'') (''json subject'' @ nl),
           Write Stdout (''Output saved to report.mdm'' @ nl)]
          = [Construct k, Call (Sublime k) (params enrich_default_output),
                OpenFile (output_file_name (file_name input)
                            (dict_get (params enrich_default_output) ''output_format'')) ''w'']
            @ rest
        \<and> Write (ToFile (output_file_name (file_name input)
                    (dict_get (params enrich_default_output) ''output_format''))) text \<in> set rest
        \<and> last [Construct (AStr ''key''),
           Call (Sublime (AStr ''key'')) (params enrich_default_output),
           OpenFile ''report.mdm'' ''w'',
           Render [''txt'', ''enrich_details''] example_result (ABool False),
           Write Stdout (''details message_data_model details'' @ nl),
           Render [''json''] (PDict [(''subject'', PStr ''hello'')]) (ABool False),
           Write (ToFile ''report.mdm'') (''json subject'' @ nl),
           Write Stdout (''Output saved to report.mdm'' @ nl)]
          = Write Stdout (''Output saved to ''
             @ output_file_name (file_name input)
                 (dict_get (params enrich_default_output) ''output_format'')
             @ nl))"
proof -
  have h: "command_name enrich_default_output = ''enrich''"
      "\<not> truthy (dict_get (params enrich_default_output) ''output_file'')"
      "dict_get (params enrich_default_output) ''output_format'' = AStr ''json''"
    by (simp_all add: enrich_default_output_def example_ctx_def enrich_params_def dict_get_def)
  have n: "output_file_name ''mail/report.eml'' (AStr ''json'') = ''report.mdm''"
    by (simp add: output_file_name_def splitext_def basename_def Let_def non_dot_before.simps)
  from enrich_output_file_name [of "''mail/report.eml''"] n
  have b: "fst (splitext (basename ''mail/report.eml'')) = ''report''"
    by simp
  from enrich_output_file_name [of "''mail/report.eml''" example_env returns_result
      enrich_default_output "()" _] enrich_default_output_run h
  have c: "\<exists>k input rest text.
          dict_get (params enrich_default_output) ''input_file'' = AFile input
        \<and> [Construct (AStr ''key''),
           Call (Sublime (AStr ''key'')) (params enrich_default_output),
           OpenFile ''report.mdm'' ''w'',
           Render [''txt'', ''enrich_details''] example_result (ABool False),
           Write Stdout (''details message_data_model details'' @ nl),
           Render [''json''] (PDict [(''subject'', PStr ''hello'')]) (ABool False),
           Write (ToFile ''report.mdm'') (''json subject'' @ nl),
           Write Stdout (''Output saved to report.mdm'' @ nl)]
          = [Construct k, Call (Sublime k) (params enrich_default_output),
                OpenFile (output_file_name (file_name input)
                            (dict_get (params enrich_default_output) ''output_format'')) ''w'']
            @ rest
        \<and> Write (ToFile (output_file_name (file_name input)
                    (dict_get (params enrich_default_output) ''output_format''))) text \<in> set rest
        \<and> last [Construct (AStr ''key''),
           Call (Sublime (AStr ''key'')) (params enrich_default_output),
           OpenFile ''report.mdm'' ''w'',
           Render [''txt'', ''enrich_details''] example_result (ABool False),
           Write Stdout (''details message_data_model details'' @ nl),
           Render [''json''] (PDict [(''subject'', PStr ''hello'')]) (ABool False),
           Write (ToFile ''report.mdm'') (''json subject'' @ nl),
           Write Stdout (''Output saved to report.mdm'' @ nl)]
          = Write Stdout (''Output saved to ''
             @ output_file_name (file_name input)
                 (dict_get (params enrich_default_output) ''output_format'')
             @ nl)"
    by blast
  from enrich_default_output_run n b c show ?thesis by (intro conjI)
qed

end
